theory Spec2Isabelle
  imports Complex_Main "HOL-Library.Sublist"
begin

section \<open>Python string primitives\<close>

text \<open>
  Python \<open>str\<close> values are modelled as \<open>string\<close> (lists of \<open>char\<close>), read as ASCII
  text: \<open>lower\<close> maps \<open>A..Z\<close> to \<open>a..z\<close> and leaves every other character alone,
  whitespace is the ASCII whitespace of \<open>str.isspace\<close>, and a regex word character is an
  ASCII letter, digit or underscore. Characters above 127 are carried through unchanged.
  A float is represented by the rational number it denotes. The scorers are given twice:
  with exact decimal arithmetic, and, in the definitions suffixed \<open>_f64\<close>, with every
  operation rounded to binary64 as CPython rounds it.
\<close>

definition lower_char :: "char \<Rightarrow> char" where
  "lower_char c =
     (let n = (of_char c :: nat) in if 65 \<le> n \<and> n \<le> 90 then char_of (n + 32) else c)"

definition lower :: "string \<Rightarrow> string" where
  "lower s = map lower_char s"

definition is_space :: "char \<Rightarrow> bool" where
  "is_space c =
     (let n = (of_char c :: nat) in (9 \<le> n \<and> n \<le> 13) \<or> (28 \<le> n \<and> n \<le> 32))"

definition is_word :: "char \<Rightarrow> bool" where
  "is_word c =
     (let n = (of_char c :: nat)
      in (48 \<le> n \<and> n \<le> 57) \<or> (65 \<le> n \<and> n \<le> 90) \<or> n = 95 \<or> (97 \<le> n \<and> n \<le> 122))"

text \<open>\<open>s.strip()\<close>: drop leading and trailing whitespace.\<close>

definition strip :: "string \<Rightarrow> string" where
  "strip s = rev (dropWhile is_space (rev (dropWhile is_space s)))"

text \<open>\<open>s.startswith(p)\<close>.\<close>

definition startswith :: "string \<Rightarrow> string \<Rightarrow> bool" where
  "startswith s p = prefix p s"

text \<open>\<open>sub in s\<close>: \<open>sub\<close> occurs in \<open>s\<close> as a contiguous substring.\<close>

fun str_in :: "string \<Rightarrow> string \<Rightarrow> bool" where
  "str_in sub [] = (sub = [])"
| "str_in sub (c # cs) = (prefix sub (c # cs) \<or> str_in sub cs)"

text \<open>\<open>any(k in s for k in ks)\<close>.\<close>

definition any_in :: "string list \<Rightarrow> string \<Rightarrow> bool" where
  "any_in ks s = list_ex (\<lambda>k. str_in k s) ks"

text \<open>\<open>s.split(sep)\<close> for a one-character separator: never the empty list.\<close>

fun split_on :: "char \<Rightarrow> string \<Rightarrow> string list" where
  "split_on sep [] = [ [] ]"
| "split_on sep (c # cs) =
     (if c = sep then [] # split_on sep cs
      else (case split_on sep cs of [] \<Rightarrow> [ [c] ] | l # ls \<Rightarrow> (c # l) # ls))"

text \<open>\<open>s.split()\<close>: the maximal runs of non-whitespace characters.\<close>

fun split_ws_acc :: "string \<Rightarrow> string \<Rightarrow> string list" where
  "split_ws_acc cur [] = (if cur = [] then [] else [cur])"
| "split_ws_acc cur (c # cs) =
     (if is_space c then (if cur = [] then split_ws_acc [] cs else cur # split_ws_acc [] cs)
      else split_ws_acc (cur @ [c]) cs)"

definition split_ws :: "string \<Rightarrow> string list" where
  "split_ws s = split_ws_acc [] s"

text \<open>
  \<open>s.count(sub)\<close>: the number of non-overlapping occurrences, scanning from the left.
  \<open>skip\<close> is the number of characters still covered by the last occurrence counted.
\<close>

fun count_from :: "string \<Rightarrow> nat \<Rightarrow> string \<Rightarrow> nat" where
  "count_from sub skip [] = 0"
| "count_from sub skip (c # cs) =
     (if skip = 0 \<and> prefix sub (c # cs) then Suc (count_from sub (length sub - 1) cs)
      else count_from sub (skip - 1) cs)"

definition str_count :: "string \<Rightarrow> string \<Rightarrow> nat" where
  "str_count s sub = (if sub = [] then Suc (length s) else count_from sub 0 s)"

text \<open>
  \<open>re.search(r'\bPAT\b', s)\<close> for a literal pattern: \<open>\b\<close> holds between two
  positions exactly when one side is a word character and the other is not (the outside
  of the string counting as a non-word character). \<open>prevw\<close> says whether the character
  before the current position is a word character.
\<close>

definition boundary :: "bool \<Rightarrow> string \<Rightarrow> bool" where
  "boundary prevw rest = (prevw \<noteq> (case rest of [] \<Rightarrow> False | c # _ \<Rightarrow> is_word c))"

definition match_here :: "string \<Rightarrow> bool \<Rightarrow> string \<Rightarrow> bool" where
  "match_here pat prevw s =
     (boundary prevw s \<and> prefix pat s \<and>
      boundary (if pat = [] then prevw else is_word (last pat)) (drop (length pat) s))"

fun search_from :: "string \<Rightarrow> bool \<Rightarrow> string \<Rightarrow> bool" where
  "search_from pat prevw [] = match_here pat prevw []"
| "search_from pat prevw (c # cs) =
     (match_here pat prevw (c # cs) \<or> search_from pat (is_word c) cs)"

definition re_search_word :: "string \<Rightarrow> string \<Rightarrow> bool" where
  "re_search_word pat s = search_from pat False s"

section \<open>Safety assessment tool (agents/tools.py)\<close>

definition crisis_keywords :: "string list" where
  "crisis_keywords =
     [''kill'', ''die'', ''suicide'', ''harm myself'', ''hurt myself'',
      ''end it all'', ''want to die'', ''better off dead'']"

definition distress_keywords :: "string list" where
  "distress_keywords =
     [''help me'', ''scared'', ''terrified'', ''can't breathe'',
      ''chest pain'', ''can't move'', ''falling'', ''emergency'']"

definition agitation_keywords :: "string list" where
  "agitation_keywords =
     [''angry'', ''frustrated'', ''leave me alone'', ''go away'',
      ''stop'', ''hate this'', ''get out'']"

definition critical_report :: string where
  "critical_report =
     ''\<newline>SAFETY ASSESSMENT: CRITICAL\<newline>'' @
     ''Risk Level: HIGH - IMMEDIATE INTERVENTION REQUIRED\<newline>\<newline>'' @
     ''Indicators: Crisis language detected (self-harm/suicidal ideation)\<newline>\<newline>'' @
     ''REQUIRED ACTIONS:\<newline>'' @
     ''1. Immediately notify emergency contacts\<newline>'' @
     ''2. Engage crisis protocol\<newline>'' @
     ''3. Do NOT continue normal conversation\<newline>'' @
     ''4. Provide crisis hotline: 988 (Suicide & Crisis Lifeline)\<newline>'' @
     ''5. Stay with patient, use calming presence\<newline>'' @
     ''6. Say: \"I hear that you're in pain. Your safety is important. Help is available.\"\<newline>''"

definition elevated_report :: string where
  "elevated_report =
     ''\<newline>SAFETY ASSESSMENT: ELEVATED\<newline>'' @
     ''Risk Level: MODERATE - REQUIRES ATTENTION\<newline>\<newline>'' @
     ''Indicators: Severe distress or potential medical emergency\<newline>\<newline>'' @
     ''RECOMMENDED ACTIONS:\<newline>'' @
     ''1. Alert caregiver immediately\<newline>'' @
     ''2. Ask gentle clarifying questions\<newline>'' @
     ''3. Provide reassurance: \"You're safe. Help is here.\"\<newline>'' @
     ''4. If medical symptoms (chest pain, breathing issues), call 911\<newline>'' @
     ''5. Remain calm and present\<newline>''"

definition monitor_report :: string where
  "monitor_report =
     ''\<newline>SAFETY ASSESSMENT: MONITOR\<newline>'' @
     ''Risk Level: LOW-MODERATE - De-escalation needed\<newline>\<newline>'' @
     ''Indicators: Agitation or frustration\<newline>\<newline>'' @
     ''RECOMMENDED ACTIONS:\<newline>'' @
     ''1. Validate feelings: \"I understand you're feeling frustrated\"\<newline>'' @
     ''2. Offer to end session: \"Would you like to take a break?\"\<newline>'' @
     ''3. Switch to calming content (music, nature sounds)\<newline>'' @
     ''4. Give space, reduce stimulation\<newline>'' @
     ''5. Note in session log for caregiver review\<newline>''"

definition clear_report :: string where
  "clear_report =
     ''\<newline>SAFETY ASSESSMENT: CLEAR\<newline>'' @
     ''Risk Level: NONE - Continue normal interaction\<newline>\<newline>'' @
     ''No safety concerns detected. Proceed with compassionate, validating conversation.\<newline>''"

text \<open>\<open>SafetyAssessmentTool._run(patient_message, context)\<close>; \<open>context\<close> is not read.\<close>

definition SafetyAssessmentTool_run :: "string \<Rightarrow> string \<Rightarrow> string" where
  "SafetyAssessmentTool_run patient_message context =
     (let message_lower = lower patient_message
      in if any_in crisis_keywords message_lower then critical_report
         else if any_in distress_keywords message_lower then elevated_report
         else if any_in agitation_keywords message_lower then monitor_report
         else clear_report)"

section \<open>Care philosophy (services/caregiver_training.py)\<close>

datatype py_error = IndexError | KeyError

record principle_info =
  p_title :: string
  p_description :: string
  weight :: rat

text \<open>\<open>CarePhilosophy.PRINCIPLES\<close>, in the dictionary's insertion order.\<close>

definition PRINCIPLES :: "(string \<times> principle_info) list" where
  "PRINCIPLES =
     [(''ritual_over_stimulation'',
       \<lparr>p_title = ''Ritual Over Stimulation'',
        p_description = ''Novelty creates anxiety. Familiarity creates safety.'',
        weight = 25 / 100\<rparr>),
      (''emotion_over_accuracy'',
       \<lparr>p_title = ''Emotion Over Accuracy'',
        p_description =
          ''Respond to feelings, not facts. Correctness is optional. Comfort is not.'',
        weight = 30 / 100\<rparr>),
      (''presence_over_performance'',
       \<lparr>p_title = ''Presence Over Performance'',
        p_description = ''No one is asked to remember, improve, or succeed.'',
        weight = 25 / 100\<rparr>),
      (''short_steady_repeatable'',
       \<lparr>p_title = ''Short, Steady, Repeatable'',
        p_description = ''Better to return tomorrow than overwhelm today.'',
        weight = 20 / 100\<rparr>)]"

record phase =
  ph_name :: string
  ph_duration :: string
  ph_purpose :: string
  ph_example :: string
  ph_key_points :: "string list"

text \<open>\<open>CarePhilosophy.IDEAL_SESSION["phases"]\<close>.\<close>

definition IDEAL_SESSION_phases :: "phase list" where
  "IDEAL_SESSION_phases =
     [\<lparr>ph_name = ''Arrival'', ph_duration = ''0-1 min'',
       ph_purpose = ''Predictability & Safety'',
       ph_example = ''Good morning, [Name]. It's time for our visit. I'm here with you.'',
       ph_key_points = [''Use their name'', ''Say 'visit' not 'session'' @ [CHR 0x27],
         ''State presence before purpose'', ''Pause - don't rush'']\<rparr>,
      \<lparr>ph_name = ''Gentle Orientation'', ph_duration = ''1-2 min'',
       ph_purpose = ''Orientation Without Testing'',
       ph_example = ''It's a calm morning. You're at home, and things are okay right now.'',
       ph_key_points = [''Never ask 'Do you know...?'' @ [CHR 0x27], ''Never wait for confirmation'',
         ''Orientation is offered, not requested'', ''No testing'']\<rparr>,
      \<lparr>ph_name = ''Familiar Thread'', ph_duration = ''2-4 min'',
       ph_purpose = ''Memory Without Recall Pressure'',
       ph_example = ''I was thinking about your garden today. You always seemed to enjoy being around plants.'',
       ph_key_points = [''No 'when', 'who', or 'what year'' @ [CHR 0x27],
         ''Use 'Tell me', 'How did it feel', 'What did you like'' @ [CHR 0x27],
         ''Repetition is success'', ''Follow emotion, not facts'']\<rparr>,
      \<lparr>ph_name = ''Emotional Reflection'', ph_duration = ''4-5 min'',
       ph_purpose = ''Identity Support'',
       ph_example = ''When you talk about that, you sound calm. That seems like something you cared about.'',
       ph_key_points = [''Reflect who they are, not what they remember'',
         ''Acknowledge emotions'', ''Let them respond or sit quietly'',
         ''This minute is crucial'']\<rparr>,
      \<lparr>ph_name = ''Gentle Presence'', ph_duration = ''5-6 min'',
       ph_purpose = ''No Performance Required'',
       ph_example = ''We can stay here with that feeling for a moment. It's okay to rest.'',
       ph_key_points = [''Silence is allowed'', ''No pressure to speak'',
         ''If tired, validate that'', ''Presence over conversation'']\<rparr>,
      \<lparr>ph_name = ''Consistent Closing'', ph_duration = ''6-7 min'',
       ph_purpose = ''Trust & Continuity'',
       ph_example = ''Thank you for spending this time with me. I'll visit you again tomorrow.'',
       ph_key_points = [''Always the same closing'', ''No recap'', ''No instruction'',
         ''No 'goodbye forever'' @ [CHR 0x27], ''Promise return'']\<rparr>]"

section \<open>Conversation analyzer: turn parser\<close>

text \<open>
  A turn is the dictionary \<open>{"speaker", "text", "text_lower"}\<close>; the speaker strings
  \<open>"caregiver"\<close>, \<open>"patient"\<close> and \<open>"unknown"\<close> are the three constructors, and the
  key \<open>"text"\<close> is the field \<open>turn_text\<close>.
\<close>

datatype speaker = Caregiver | Patient | Unknown

record turn =
  speaker :: speaker
  turn_text :: string
  text_lower :: string

definition make_turn :: "speaker \<Rightarrow> string \<Rightarrow> turn" where
  "make_turn sp t = \<lparr>speaker = sp, turn_text = t, text_lower = lower t\<rparr>"

text \<open>\<open>s.split(sep, 1)\<close>: split at the first separator only.\<close>

fun split_once :: "char \<Rightarrow> string \<Rightarrow> string list" where
  "split_once sep [] = [ [] ]"
| "split_once sep (c # cs) =
     (if c = sep then [ [], cs]
      else (case split_once sep cs of [] \<Rightarrow> [ [c] ] | l # ls \<Rightarrow> (c # l) # ls))"

text \<open>
  The body of the loop of \<open>_parse_conversation\<close> for one stripped, non-empty line.
  \<open>parts[1]\<close> raises IndexError when the split gives a single part.
\<close>

definition parse_line :: "string \<Rightarrow> string \<Rightarrow> string \<Rightarrow> py_error + turn" where
  "parse_line caregiver_name patient_name line =
     (if startswith (lower line) (lower caregiver_name @ '':'') then
        Inr (make_turn Caregiver (strip (drop (length caregiver_name + 1) line)))
      else if startswith (lower line) (lower patient_name @ '':'') then
        Inr (make_turn Patient (strip (drop (length patient_name + 1) line)))
      else if str_in '':'' line then
        (case split_once (CHR '':'') line of
           p0 # p1 # _ \<Rightarrow>
             (let speaker_text = lower (strip p0);
                  sp = (if str_in ''caregiver'' speaker_text \<or> str_in ''family'' speaker_text
                        then Caregiver
                        else if str_in ''patient'' speaker_text \<or> str_in ''elder'' speaker_text
                        then Patient
                        else Unknown)
              in Inr (make_turn sp (strip p1)))
         | _ \<Rightarrow> Inl IndexError)
      else Inr (make_turn Unknown line))"

fun parse_lines :: "string \<Rightarrow> string \<Rightarrow> string list \<Rightarrow> turn list \<Rightarrow> py_error + turn list" where
  "parse_lines caregiver_name patient_name [] turns = Inr turns"
| "parse_lines caregiver_name patient_name (l # ls) turns =
     (let line = strip l
      in if line = [] then parse_lines caregiver_name patient_name ls turns
         else (case parse_line caregiver_name patient_name line of
                 Inl e \<Rightarrow> Inl e
               | Inr t \<Rightarrow> parse_lines caregiver_name patient_name ls (turns @ [t])))"

definition parse_conversation :: "string \<Rightarrow> string \<Rightarrow> string \<Rightarrow> py_error + turn list" where
  "parse_conversation conversation_text caregiver_name patient_name =
     parse_lines caregiver_name patient_name
       (split_on (CHR ''\<newline>'') (strip conversation_text)) []"

definition caregiver_turns_of :: "turn list \<Rightarrow> turn list" where
  "caregiver_turns_of turns = filter (\<lambda>t. speaker t = Caregiver) turns"

section \<open>Conversation analyzer: principle scorers\<close>

text \<open>
  The evidence strings carry a check mark, a cross or a half circle and, in places, a
  formatted number; they are kept as constructors with the number as argument.
\<close>

datatype evidence =
    No_caregiver_statements
  | Started_with_greeting
  | Missing_greeting
  | Used_structure_words
  | Included_closing
  | Missing_closing
  | Used_validation nat
  | No_validation
  | Corrected_or_tested nat
  | Did_not_correct
  | Asked_testing nat
  | No_testing
  | Used_invitations nat
  | Average_ideal rat
  | Average_acceptable rat
  | Average_too_long rat
  | Statements_over_25 nat
  | All_appropriately_sized

record principle_score =
  score :: rat
  evidence :: "evidence list"

definition count_turns :: "(turn \<Rightarrow> bool) \<Rightarrow> turn list \<Rightarrow> nat" where
  "count_turns P ts = length (filter P ts)"

definition score_ritual_consistency :: "turn list \<Rightarrow> principle_score" where
  "score_ritual_consistency caregiver_turns =
     (case caregiver_turns of
        [] \<Rightarrow> \<lparr>score = 0, evidence = [No_caregiver_statements]\<rparr>
      | first_turn # _ \<Rightarrow>
          (let s0 = 7 / 10;
               (s1, e1) =
                 (if any_in [''good morning'', ''good afternoon'', ''hello'', ''hi'']
                       (text_lower first_turn)
                  then (s0 + 1 / 10, [Started_with_greeting])
                  else (s0 - 1 / 10, [Missing_greeting]));
               (s2, e2) =
                 (if list_ex (\<lambda>t. any_in [''today'', ''time for'', ''visit'', ''together'']
                                    (text_lower t)) (take 3 caregiver_turns)
                  then (s1 + 1 / 10, e1 @ [Used_structure_words])
                  else (s1, e1));
               (s3, e3) =
                 (if any_in [''thank you'', ''see you'', ''tomorrow'', ''next time'']
                       (text_lower (last caregiver_turns))
                  then (s2 + 1 / 10, e2 @ [Included_closing])
                  else (s2 - 1 / 10, e2 @ [Missing_closing]))
           in \<lparr>score = min 1 (max 0 s3), evidence = e3\<rparr>))"

definition validation_phrases :: "string list" where
  "validation_phrases =
     [''i understand'', ''that sounds'', ''i hear you'', ''that must'',
      ''it seems'', ''you feel'', ''that's important'', ''i can see'']"

definition correction_phrases :: "string list" where
  "correction_phrases =
     [''no, actually'', ''that's not right'', ''remember when'', ''don't you remember'',
      ''try to remember'', ''you forgot'', ''that's wrong'', ''no, it was'']"

definition score_emotional_validation :: "turn list \<Rightarrow> turn list \<Rightarrow> principle_score" where
  "score_emotional_validation caregiver_turns all_turns =
     (let s0 = 7 / 10;
          validation_count =
            count_turns (\<lambda>t. any_in validation_phrases (text_lower t)) caregiver_turns;
          (s1, e1) =
            (if validation_count > 0
             then (s0 + min (2 / 10) (of_nat validation_count * (1 / 10)),
                   [Used_validation validation_count])
             else (s0 - 15 / 100, [No_validation]));
          correction_count =
            count_turns (\<lambda>t. any_in correction_phrases (text_lower t)) caregiver_turns;
          (s2, e2) =
            (if correction_count > 0
             then (s1 - min (3 / 10) (of_nat correction_count * (15 / 100)),
                   e1 @ [Corrected_or_tested correction_count])
             else (s1 + 1 / 10, e1 @ [Did_not_correct]))
      in \<lparr>score = min 1 (max 0 s2), evidence = e2\<rparr>)"

text \<open>Each pattern stands for the regular expression \<open>\bPATTERN\b\<close>.\<close>

definition testing_patterns :: "string list" where
  "testing_patterns =
     [''do you remember'', ''what year'', ''who was'', ''when did'', ''try to'',
      ''can you recall'']"

definition invitation_phrases :: "string list" where
  "invitation_phrases =
     [''if you'd like'', ''would you like'', ''we can'', ''it's okay'',
      ''no need to'', ''take your time'', ''when you're ready'']"

definition is_testing_turn :: "turn \<Rightarrow> bool" where
  "is_testing_turn t = list_ex (\<lambda>pattern. re_search_word pattern (text_lower t)) testing_patterns"

definition score_no_pressure :: "turn list \<Rightarrow> principle_score" where
  "score_no_pressure caregiver_turns =
     (let s0 = 8 / 10;
          testing_count = count_turns is_testing_turn caregiver_turns;
          (s1, e1) =
            (if testing_count > 0
             then (s0 - min (4 / 10) (of_nat testing_count * (15 / 100)),
                   [Asked_testing testing_count])
             else (s0 + 1 / 10, [No_testing]));
          invitation_count =
            count_turns (\<lambda>t. any_in invitation_phrases (text_lower t)) caregiver_turns;
          (s2, e2) =
            (if invitation_count > 0
             then (s1 + min (15 / 100) (of_nat invitation_count * (5 / 100)),
                   e1 @ [Used_invitations invitation_count])
             else (s1, e1))
      in \<lparr>score = min 1 (max 0 s2), evidence = e2\<rparr>)"

definition word_count :: "turn \<Rightarrow> nat" where
  "word_count t = length (split_ws (turn_text t))"

definition score_brevity_structure :: "turn list \<Rightarrow> principle_score" where
  "score_brevity_structure caregiver_turns =
     (if caregiver_turns = [] then \<lparr>score = 0, evidence = []\<rparr>
      else
        (let s0 = 7 / 10;
             total_words = sum_list (map word_count caregiver_turns);
             avg_words = (of_nat total_words :: rat) / of_nat (length caregiver_turns);
             (s1, e1) =
               (if avg_words \<le> 12 then (s0 + 2 / 10, [Average_ideal avg_words])
                else if avg_words \<le> 18 then (s0 + 1 / 10, [Average_acceptable avg_words])
                else (s0 - 1 / 10, [Average_too_long avg_words]));
             long_statements = filter (\<lambda>t. word_count t > 25) caregiver_turns;
             (s2, e2) =
               (if long_statements \<noteq> []
                then (s1 - min (2 / 10) (of_nat (length long_statements) * (5 / 100)),
                      e1 @ [Statements_over_25 (length long_statements)])
                else (s1 + 1 / 10, e1 @ [All_appropriately_sized]))
         in \<lparr>score = min 1 (max 0 s2), evidence = e2\<rparr>))"

definition score_principle :: "turn list \<Rightarrow> string \<Rightarrow> string \<Rightarrow> principle_score" where
  "score_principle turns principle stage =
     (let caregiver_turns = caregiver_turns_of turns
      in if principle = ''ritual_over_stimulation'' then
           score_ritual_consistency caregiver_turns
         else if principle = ''emotion_over_accuracy'' then
           score_emotional_validation caregiver_turns turns
         else if principle = ''presence_over_performance'' then
           score_no_pressure caregiver_turns
         else if principle = ''short_steady_repeatable'' then
           score_brevity_structure caregiver_turns
         else \<lparr>score = 5 / 10, evidence = []\<rparr>)"

section \<open>Conversation analyzer: violations\<close>

text \<open>
  A violation is the dictionary \<open>{"severity", "type", "turn_number", "text", "issue",
  "correction"}\<close>; the key \<open>"type"\<close> is the field \<open>vtype\<close>, the key \<open>"text"\<close> the
  field \<open>excerpt\<close>, and the severities \<open>"high"\<close> and \<open>"medium"\<close> are constructors.
  Characters outside ASCII in the fixed prose are written as their UTF-8 bytes.
\<close>

datatype severity = High | Medium

record violation =
  severity :: severity
  vtype :: string
  turn_number :: nat
  excerpt :: string
  issue :: string
  correction :: string

text \<open>The four checks of the loop body of \<open>_detect_violations\<close> for the turn at index \<open>i\<close>.\<close>

definition turn_violations :: "nat \<Rightarrow> turn \<Rightarrow> violation list" where
  "turn_violations i t =
     (if any_in [''do you remember'', ''try to remember'', ''don't you remember''] (text_lower t)
      then [\<lparr>severity = High, vtype = ''memory_testing'', turn_number = i + 1,
        excerpt = take 100 (turn_text t),
        issue = ''Testing memory creates anxiety and shame'',
        correction =
          ''Instead ask: 'What did you like about that?' or 'Tell me more about that'' @ [CHR 0x27]\<rparr>]
      else []) @
     (if any_in [''no, actually'', ''that's not right'', ''that's wrong''] (text_lower t)
      then [\<lparr>severity = High, vtype = ''correction'', turn_number = i + 1,
        excerpt = take 100 (turn_text t),
        issue = ''Correcting creates conflict and distress'',
        correction =
          ''Validate their emotion: 'That sounds important to you' or 'I can see why you'd think that'' @ [CHR 0x27]\<rparr>]
      else []) @
     (if str_count (text_lower t) ''or'' \<ge> 2
      then [\<lparr>severity = Medium, vtype = ''too_many_choices'', turn_number = i + 1,
        excerpt = take 100 (turn_text t),
        issue = ''Multiple choices increase confusion'',
        correction =
          ''Simplify to one option or no choice: 'It's time for lunch' vs 'Do you want lunch now or later?'' @ [CHR 0x27]\<rparr>]
      else []) @
     (if str_count (text_lower t) ''?'' \<ge> 3
      then [\<lparr>severity = Medium, vtype = ''too_many_questions'', turn_number = i + 1,
        excerpt = take 100 (turn_text t),
        issue = ''Multiple questions create pressure'',
        correction =
          ''One question at a time, or statements instead: 'I'm curious about your garden' vs asking multiple garden questions''\<rparr>]
      else [])"

text \<open>\<open>for i, turn in enumerate(caregiver_turns)\<close>, starting at index \<open>i\<close>.\<close>

fun violations_from :: "nat \<Rightarrow> turn list \<Rightarrow> violation list" where
  "violations_from i [] = []"
| "violations_from i (t # ts) = turn_violations i t @ violations_from (Suc i) ts"

definition detect_violations :: "turn list \<Rightarrow> string \<Rightarrow> violation list" where
  "detect_violations turns stage = violations_from 0 (caregiver_turns_of turns)"

section \<open>Conversation analyzer: strengths\<close>

text \<open>
  \<open>_identify_strengths\<close> returns \<open>list(set(strengths))\<close>, whose order is not fixed by
  the language: the result is the set of the strings collected.
\<close>

definition identify_strengths :: "turn list \<Rightarrow> string \<Rightarrow> string set" where
  "identify_strengths turns stage =
     (let caregiver_turns = caregiver_turns_of turns;
          s1 = (if list_ex (\<lambda>t. any_in [''that sounds'', ''i understand'', ''i hear you'']
                                 (text_lower t)) caregiver_turns
                then [''Used emotional validation''] else []);
          s2 = (if list_ex (\<lambda>t. str_in ''take your time'' (text_lower t)) caregiver_turns
                then s1 @ [''Gave permission to go slow''] else s1);
          testing_found =
            list_ex (\<lambda>t. str_in ''remember'' (text_lower t) \<and> str_in ''?'' (turn_text t))
              caregiver_turns;
          s3 = (if \<not> testing_found then s2 @ [''Avoided testing memory''] else s2);
          short_statements = filter (\<lambda>t. word_count t \<le> 12) caregiver_turns;
          s4 = (if (if caregiver_turns \<noteq> []
                    then (of_nat (length short_statements) :: rat) /
                           of_nat (length caregiver_turns) > 7 / 10
                    else False)
                then s3 @ [''Kept statements short and clear''] else s3);
          s5 = (if list_ex (\<lambda>t. any_in [''i'm here'', ''together'', ''with you''] (text_lower t))
                     caregiver_turns
                then s4 @ [''Emphasized presence and togetherness''] else s4)
      in set s5)"

section \<open>Conversation analyzer: recommendations\<close>

record recommendation =
  priority :: string
  category :: string
  title :: string
  description :: string
  action :: string
  example :: string

definition recommendations_map :: "(string \<times> recommendation) list" where
  "recommendations_map =
     [(''ritual_over_stimulation'',
       \<lparr>priority = ''high'', category = ''structure'',
        title = ''Create Predictable Ritual'',
        description =
          ''Novelty increases anxiety in dementia. Use the same words, same time, same structure every visit.'',
        action =
          ''Write a script for your opening and closing. Use it every time, word-for-word.'',
        example =
          ''Opening: 'Good morning, [Name]. It's time for our visit. I'm here with you.' Closing: 'Thank you for this time. I'll see you tomorrow.'' @ [CHR 0x27]\<rparr>),
      (''emotion_over_accuracy'',
       \<lparr>priority = ''immediate'', category = ''communication'',
        title = ''Validate Feelings, Not Facts'',
        description =
          ''Correcting their reality creates conflict. Their emotions are always valid, even if facts aren't.'',
        action =
          ''When they say something incorrect, respond to the feeling behind it instead of correcting.'',
        example =
          ''If they say 'I need to pick up the kids' (who are grown), say: 'You're a caring parent' not 'Your kids are adults now.'' @ [CHR 0x27]\<rparr>),
      (''presence_over_performance'',
       \<lparr>priority = ''high'', category = ''approach'',
        title = ''Remove All Pressure'',
        description =
          ''Never ask them to remember, perform, or succeed. Your presence is the gift.'',
        action =
          ''Replace questions with statements. Give permission to rest. Accept silence.'',
        example =
          [CHR 0x27] @ ''We can just sit together' not 'Can you tell me about...?' Silence is companionship.''\<rparr>),
      (''short_steady_repeatable'',
       \<lparr>priority = ''medium'', category = ''structure'',
        title = ''Keep It Brief'',
        description =
          ''Short visits prevent fatigue. Better to return daily than overwhelm today.'',
        action =
          ''Aim for 5-7 minutes. Use short sentences (10-12 words max). One idea per sentence.'',
        example =
          [CHR 0x27] @ ''I'm here with you.' (pause) 'Today is calm.' (pause) Not: 'I'm here with you today and wanted to see how you're doing and talk about the garden...'' @ [CHR 0x27]\<rparr>)]"

text \<open>\<open>_get_principle_recommendation\<close>: \<open>recommendations_map.get(principle)\<close>.\<close>

definition get_principle_recommendation :: "string \<Rightarrow> string \<Rightarrow> recommendation option" where
  "get_principle_recommendation principle stage = map_of recommendations_map principle"

definition stop_testing_memory :: recommendation where
  "stop_testing_memory =
     \<lparr>priority = ''immediate'', category = ''critical'',
      title = ''Stop Testing Memory'',
      description =
        ''Asking 'Do you remember?' creates anxiety. Memory loss is the core symptom'' @ [CHR 0xE2, CHR 0x80, CHR 0x94] @ ''testing it causes shame.'',
      action =
        ''Replace memory questions with feeling questions: 'What did you enjoy about that?' or 'How did that make you feel?'' @ [CHR 0x27],
      example =
        ''Instead of 'Do you remember our trip?' say 'I was thinking about our trip. You seemed happy then.'' @ [CHR 0x27]\<rparr>"

definition early_stage_recommendation :: recommendation where
  "early_stage_recommendation =
     \<lparr>priority = ''high'', category = ''stage_specific'',
      title = ''Early Stage: Affirm Competence'',
      description =
        ''In early dementia, the person is very aware of their losses. Avoid any framing around 'memory improvement' or 'cognitive exercises.'' @ [CHR 0x27],
      action =
        ''Frame interactions as social visits, not therapy. Normalize difficulty: 'Everyone has trouble with names sometimes.'' @ [CHR 0x27],
      example =
        [CHR 0x27] @ ''This is just a quiet visit' not 'Let's work on your memory today'' @ [CHR 0x27]\<rparr>"

definition moderate_stage_recommendation :: recommendation where
  "moderate_stage_recommendation =
     \<lparr>priority = ''high'', category = ''stage_specific'',
      title = ''Moderate Stage: Rhythm & Repetition'',
      description =
        ''At this stage, ritual matters more than conversation quality. Same time, same words, same structure.'',
      action =
        ''Use the exact same opening and closing every visit. Repeat favorite topics often'' @ [CHR 0xE2, CHR 0x80, CHR 0x94] @ ''repetition is success.'',
      example =
        ''Same greeting daily: 'Good morning, [Name]. It's time for our visit. I'm here with you.'' @ [CHR 0x27]\<rparr>"

definition late_stage_recommendation :: recommendation where
  "late_stage_recommendation =
     \<lparr>priority = ''high'', category = ''stage_specific'',
      title = ''Late Stage: Presence Over Words'',
      description =
        ''Language may be minimal. Your tone and presence matter more than words. Very short sessions (3-5 min).'',
      action =
        ''Reduce questions. Use more statements. Accept long silences. Focus on calming the nervous system.'',
      example =
        [CHR 0x27] @ ''You're not alone. I'm here.' Then sit quietly together.''\<rparr>"

definition structure_your_visit :: recommendation where
  "structure_your_visit =
     \<lparr>priority = ''medium'', category = ''improvement'',
      title = ''Structure Your Visit'',
      description =
        ''Follow the ideal 7-minute structure: Arrival '' @ [CHR 0xE2, CHR 0x86, CHR 0x92] @ '' Orientation '' @ [CHR 0xE2, CHR 0x86, CHR 0x92] @ '' Familiar Thread '' @ [CHR 0xE2, CHR 0x86, CHR 0x92] @ '' Reflection '' @ [CHR 0xE2, CHR 0x86, CHR 0x92] @ '' Presence '' @ [CHR 0xE2, CHR 0x86, CHR 0x92] @ '' Closing'',
      action =
        ''Each phase has a purpose. Don't rush. Silence is okay. Repetition tomorrow is expected.'',
      example =
        ''See the full 7-minute ideal session script for details.''\<rparr>"

text \<open>The first loop of \<open>_generate_recommendations\<close>, over \<open>scores.items()\<close>.\<close>

fun low_score_recommendations ::
  "(string \<times> principle_score) list \<Rightarrow> string \<Rightarrow> recommendation list" where
  "low_score_recommendations [] stage = []"
| "low_score_recommendations ((principle, score_data) # rest) stage =
     (if score score_data < 6 / 10
      then (case get_principle_recommendation principle stage of
              Some r \<Rightarrow> r # low_score_recommendations rest stage
            | None \<Rightarrow> low_score_recommendations rest stage)
      else low_score_recommendations rest stage)"

definition generate_recommendations ::
  "turn list \<Rightarrow> (string \<times> principle_score) list \<Rightarrow> violation list \<Rightarrow> string
     \<Rightarrow> recommendation list" where
  "generate_recommendations turns scores violations stage =
     (let r1 = low_score_recommendations scores stage;
          high_severity = filter (\<lambda>v. severity v = High) violations;
          r2 = (if violations \<noteq> [] \<and> high_severity \<noteq> [] then stop_testing_memory # r1
                else r1);
          r3 = (if stage = ''early'' then r2 @ [early_stage_recommendation]
                else if stage = ''moderate'' then r2 @ [moderate_stage_recommendation]
                else if stage = ''late'' then r2 @ [late_stage_recommendation]
                else r2)
      in if r3 = [] then r3 @ [structure_your_visit] else r3)"

section \<open>Conversation analyzer: overall score and grade\<close>

text \<open>
  \<open>round(x, ndigits)\<close> on the exact value: to the nearest multiple of \<open>10 ^ -ndigits\<close>,
  a tie going to the even one.
\<close>

definition round_half_even :: "rat \<Rightarrow> int" where
  "round_half_even x =
     (let f = \<lfloor>x\<rfloor>; d = x - of_int f
      in if d < 1 / 2 then f else if 1 / 2 < d then f + 1 else if even f then f else f + 1)"

definition py_round :: "rat \<Rightarrow> nat \<Rightarrow> rat" where
  "py_round x ndigits = of_int (round_half_even (x * 10 ^ ndigits)) / 10 ^ ndigits"

text \<open>
  The loop of \<open>_calculate_overall_score\<close>; \<open>PRINCIPLES[principle_key]\<close> raises KeyError
  on a key that is not a principle.
\<close>

fun weighted_total :: "(string \<times> principle_score) list \<Rightarrow> rat \<Rightarrow> py_error + rat" where
  "weighted_total [] tot = Inr tot"
| "weighted_total ((principle_key, score_data) # rest) tot =
     (case map_of PRINCIPLES principle_key of
        None \<Rightarrow> Inl KeyError
      | Some p \<Rightarrow> weighted_total rest (tot + score score_data * weight p))"

definition calculate_overall_score :: "(string \<times> principle_score) list \<Rightarrow> py_error + rat" where
  "calculate_overall_score principle_scores =
     (case weighted_total principle_scores 0 of
        Inl e \<Rightarrow> Inl e
      | Inr tot \<Rightarrow> Inr (py_round tot 2))"

definition score_to_grade :: "rat \<Rightarrow> string" where
  "score_to_grade s =
     (if s \<ge> 90 / 100 then ''A''
      else if s \<ge> 80 / 100 then ''B''
      else if s \<ge> 70 / 100 then ''C''
      else if s \<ge> 60 / 100 then ''D''
      else ''F'')"

section \<open>Conversation analyzer: phases\<close>

text \<open>
  \<open>missing_phases\<close> holds phase names on one path of \<open>_analyze_phases\<close> and whole
  phase dictionaries on the other, so its elements are of either kind. The key
  \<open>"phase_count"\<close> is present on one path only.
\<close>

datatype phase_item = Phase_name string | Phase_dict phase

record phase_analysis =
  follows_structure :: bool
  detected_phases :: "string list"
  missing_phases :: "phase_item list"
  phase_count :: "nat option"

definition analyze_phases :: "turn list \<Rightarrow> phase_analysis" where
  "analyze_phases turns =
     (let caregiver_turns = caregiver_turns_of turns
      in case caregiver_turns of
           [] \<Rightarrow> \<lparr>follows_structure = False, detected_phases = [],
                  missing_phases = map Phase_dict IDEAL_SESSION_phases, phase_count = None\<rparr>
         | first_turn # _ \<Rightarrow>
             (let d1 = (if any_in [''good morning'', ''good afternoon'', ''hello'', ''time for'']
                             (text_lower first_turn)
                        then [''Arrival''] else []);
                  d2 = (if list_ex (\<lambda>t. any_in [''today'', ''at home'', ''okay'', ''calm'']
                                         (text_lower t)) (take 3 caregiver_turns)
                        then d1 @ [''Gentle Orientation''] else d1);
                  d3 = (if list_ex (\<lambda>t. str_in ''you'' (text_lower t) \<and>
                                         any_in [''like'', ''enjoy'', ''loved'', ''always'']
                                           (text_lower t)) caregiver_turns
                        then d2 @ [''Familiar Thread''] else d2);
                  d4 = (if list_ex (\<lambda>t. any_in [''sound'', ''seem'', ''feel'', ''care'']
                                         (text_lower t)) caregiver_turns
                        then d3 @ [''Emotional Reflection''] else d3);
                  detected =
                       (if any_in [''thank you'', ''tomorrow'', ''next time'', ''see you'']
                             (text_lower (last caregiver_turns))
                        then d4 @ [''Consistent Closing''] else d4);
                  all_phase_names = map ph_name IDEAL_SESSION_phases;
                  missing = filter (\<lambda>p. p \<notin> set detected) all_phase_names
              in \<lparr>follows_structure = (length detected \<ge> 4), detected_phases = detected,
                  missing_phases = map Phase_name missing,
                  phase_count = Some (length detected)\<rparr>))"

section \<open>Conversation analyzer: the report\<close>

record report =
  overall_score :: rat
  grade :: string
  principle_scores :: "(string \<times> principle_score) list"
  violations :: "violation list"
  strengths :: "string set"
  recommendations :: "recommendation list"
  phase_analysis :: phase_analysis
  turn_count :: nat
  conversation_length :: nat
  dementia_stage :: string

text \<open>The analysis of \<open>analyze_conversation\<close> once the transcript is parsed.\<close>

definition analyze_turns :: "turn list \<Rightarrow> string \<Rightarrow> string \<Rightarrow> py_error + report" where
  "analyze_turns turns conversation_text stage =
     (let scores = map (\<lambda>(principle_key, principle).
                          (principle_key, score_principle turns principle_key stage)) PRINCIPLES;
          viols = detect_violations turns stage;
          strs = identify_strengths turns stage;
          recs = generate_recommendations turns scores viols stage
      in case calculate_overall_score scores of
           Inl e \<Rightarrow> Inl e
         | Inr overall \<Rightarrow>
             Inr \<lparr>overall_score = overall, grade = score_to_grade overall,
                  principle_scores = scores, violations = viols, strengths = strs,
                  recommendations = recs, phase_analysis = analyze_phases turns,
                  turn_count = length turns, conversation_length = length conversation_text,
                  dementia_stage = stage\<rparr>)"

definition analyze_conversation ::
  "string \<Rightarrow> string \<Rightarrow> string \<Rightarrow> string \<Rightarrow> py_error + report" where
  "analyze_conversation conversation_text caregiver_name patient_name stage =
     (case parse_conversation conversation_text caregiver_name patient_name of
        Inl e \<Rightarrow> Inl e
      | Inr turns \<Rightarrow> analyze_turns turns conversation_text stage)"

section \<open>The contract in the specification's words\<close>

text \<open>
  The turn parser as the specification describes it, for one stripped, non-empty line:
  (a) a case-insensitive prefix match on the caregiver's or the patient's name followed
  by a colon; (b) otherwise, when the line holds a colon, the label before the first colon
  decides; (c) otherwise the whole line is the text of an unknown speaker.
\<close>

definition spec_label_speaker :: "string \<Rightarrow> speaker" where
  "spec_label_speaker label =
     (if str_in ''caregiver'' label \<or> str_in ''family'' label then Caregiver
      else if str_in ''patient'' label \<or> str_in ''elder'' label then Patient
      else Unknown)"

definition spec_turn :: "string \<Rightarrow> string \<Rightarrow> string \<Rightarrow> turn" where
  "spec_turn caregiver_name patient_name line =
     (if prefix (lower (caregiver_name @ '':'')) (lower line) then
        make_turn Caregiver (strip (drop (length (caregiver_name @ '':'')) line))
      else if prefix (lower (patient_name @ '':'')) (lower line) then
        make_turn Patient (strip (drop (length (patient_name @ '':'')) line))
      else if CHR '':'' \<in> set line then
        make_turn
          (spec_label_speaker (lower (strip (takeWhile (\<lambda>c. c \<noteq> CHR '':'') line))))
          (strip (tl (dropWhile (\<lambda>c. c \<noteq> CHR '':'') line)))
      else make_turn Unknown line)"

text \<open>
  The non-empty lines of a transcript, in order: the lines of the text itself, each
  stripped of surrounding whitespace, those that are empty then left out.
\<close>

definition spec_lines :: "string \<Rightarrow> string list" where
  "spec_lines transcript =
     filter (\<lambda>l. l \<noteq> []) (map strip (split_on (CHR ''\<newline>'') transcript))"

definition spec_turns :: "string \<Rightarrow> string \<Rightarrow> string \<Rightarrow> turn list" where
  "spec_turns transcript caregiver_name patient_name =
     map (spec_turn caregiver_name patient_name) (spec_lines transcript)"

text \<open>
  The overall score in the specification's words: the sum of score times weight over the
  four principles, with the weights 0.25, 0.30, 0.25 and 0.20.
\<close>

definition weighted_sum :: "rat \<Rightarrow> rat \<Rightarrow> rat \<Rightarrow> rat \<Rightarrow> rat" where
  "weighted_sum r e p b = r * (25 / 100) + e * (30 / 100) + p * (25 / 100) + b * (20 / 100)"

text \<open>
  The words of a text: its maximal runs of word characters. \<open>count_word w s\<close> is the
  number of words of \<open>s\<close> that are \<open>w\<close>.
\<close>

fun words_acc :: "string \<Rightarrow> string \<Rightarrow> string list" where
  "words_acc cur [] = (if cur = [] then [] else [cur])"
| "words_acc cur (c # cs) =
     (if is_word c then words_acc (cur @ [c]) cs
      else if cur = [] then words_acc [] cs else cur # words_acc [] cs)"

definition count_word :: "string \<Rightarrow> string \<Rightarrow> nat" where
  "count_word w s = length (filter (\<lambda>x. x = w) (words_acc [] s))"

text \<open>The principle scores and the overall score computed for a list of turns.\<close>

abbreviation scores_of :: "turn list \<Rightarrow> string \<Rightarrow> (string \<times> principle_score) list" where
  "scores_of turns stage \<equiv>
     [(''ritual_over_stimulation'', score_principle turns ''ritual_over_stimulation'' stage),
      (''emotion_over_accuracy'', score_principle turns ''emotion_over_accuracy'' stage),
      (''presence_over_performance'', score_principle turns ''presence_over_performance'' stage),
      (''short_steady_repeatable'', score_principle turns ''short_steady_repeatable'' stage)]"

abbreviation overall_of :: "turn list \<Rightarrow> string \<Rightarrow> rat" where
  "overall_of turns stage \<equiv>
     py_round (weighted_sum
       (score (score_principle turns ''ritual_over_stimulation'' stage))
       (score (score_principle turns ''emotion_over_accuracy'' stage))
       (score (score_principle turns ''presence_over_performance'' stage))
       (score (score_principle turns ''short_steady_repeatable'' stage))) 2"

section \<open>Example inputs\<close>

definition three_invitations :: "turn list" where
  "three_invitations =
     [make_turn Caregiver ''We can sit here.'', make_turn Caregiver ''Take your time.'',
      make_turn Caregiver ''It's okay.'']"

definition mixed_transcript :: string where
  "mixed_transcript =
     ''Alice: Good morning\<newline>\<newline>  bob: hi there\<newline>'' @
     ''Family member : ok\<newline>Nurse: hello\<newline>   \<newline>what''"

definition greeting_transcript :: string where
  "greeting_transcript = ''Alice: Good morning, Dorothy.''"

definition visit_transcript :: string where
  "visit_transcript =
     ''Alice: Good morning, Mom. It's time for our visit.\<newline>'' @
     ''Alice: Thank you for this time. I'll see you tomorrow.''"

definition fishing_question :: string where
  "fishing_question = ''Do you remember when we went fishing?''"

section \<open>Binary64 arithmetic\<close>

text \<open>
  CPython's \<open>float\<close> is the IEEE 754 binary64 format. A float is represented by the
  rational number it denotes. \<open>ulp x\<close> is the distance between neighbouring binary64
  values at a positive \<open>x\<close> (53 significant bits), and \<open>f64 x\<close> is the binary64 value
  nearest to \<open>x\<close>, a tie going to the even significand; the bounded exponent range
  (overflow, subnormal numbers) is not represented. Every arithmetic operation on floats
  returns the exact result rounded by \<open>f64\<close>, a decimal literal such as \<open>0.7\<close> is
  \<open>f64 (7 / 10)\<close>, and the true division of two integers is the rounded quotient.
\<close>

function ulp :: "rat \<Rightarrow> rat" where
  "ulp x =
     (if x \<le> 0 then 0
      else if x < 1 then ulp (2 * x) / 2
      else if 2 \<le> x then 2 * ulp (x / 2)
      else 1 / 2 ^ 52)"
  by pat_completeness auto
termination
proof (relation "measure (\<lambda>x. if x < 1 then nat \<lceil>1 / x\<rceil> else nat \<lfloor>x\<rfloor>)")
  show "wf (measure (\<lambda>x::rat. if x < 1 then nat \<lceil>1 / x\<rceil> else nat \<lfloor>x\<rfloor>))" by simp
next
  fix x :: rat
  assume a: "\<not> x \<le> 0" "x < 1"
  have y: "1 < 1 / x" using a by simp
  show "(2 * x, x) \<in> measure (\<lambda>x. if x < 1 then nat \<lceil>1 / x\<rceil> else nat \<lfloor>x\<rfloor>)"
  proof (cases "2 * x < 1")
    case True
    have "1 / (2 * x) \<le> 1 / x - 1"
      using a True by (simp add: field_simps)
    then have "\<lceil>1 / (2 * x)\<rceil> \<le> \<lceil>1 / x - 1\<rceil>" by (rule ceiling_mono)
    then have "\<lceil>1 / (2 * x)\<rceil> < \<lceil>1 / x\<rceil>" by simp
    moreover have "0 < \<lceil>1 / x\<rceil>" using y by linarith
    ultimately show ?thesis using a True by simp
  next
    case False
    then have "1 \<le> 2 * x" "2 * x < 2" using a by simp_all
    then have "\<lfloor>2 * x\<rfloor> = 1" by linarith
    moreover have "2 \<le> \<lceil>1 / x\<rceil>" using y by linarith
    ultimately show ?thesis using a False by simp
  qed
next
  fix x :: rat
  assume a: "\<not> x \<le> 0" "\<not> x < 1" "2 \<le> x"
  have "x / 2 \<le> x - 1" using a by simp
  then have "\<lfloor>x / 2\<rfloor> \<le> \<lfloor>x - 1\<rfloor>" by (rule floor_mono)
  then have "\<lfloor>x / 2\<rfloor> < \<lfloor>x\<rfloor>" by simp
  moreover have "0 < \<lfloor>x\<rfloor>" using a by simp
  ultimately show "(x / 2, x) \<in> measure (\<lambda>x. if x < 1 then nat \<lceil>1 / x\<rceil> else nat \<lfloor>x\<rfloor>)"
    using a by simp
qed

declare ulp.simps [simp del]

definition f64 :: "rat \<Rightarrow> rat" where
  "f64 x =
     (if x = 0 then 0
      else if 0 < x then of_int (round_half_even (x / ulp x)) * ulp x
      else - (of_int (round_half_even (- x / ulp (- x))) * ulp (- x)))"

definition fadd :: "rat \<Rightarrow> rat \<Rightarrow> rat" where
  "fadd a b = f64 (a + b)"

definition fsub :: "rat \<Rightarrow> rat \<Rightarrow> rat" where
  "fsub a b = f64 (a - b)"

definition fmul :: "rat \<Rightarrow> rat \<Rightarrow> rat" where
  "fmul a b = f64 (a * b)"

text \<open>\<open>a / b\<close> for two integers \<open>a\<close> and \<open>b > 0\<close>.\<close>

definition int_truediv :: "nat \<Rightarrow> nat \<Rightarrow> rat" where
  "int_truediv a b = f64 (of_nat a / of_nat b)"

text \<open>\<open>n * c\<close> for an integer \<open>n\<close> and a float \<open>c\<close>: the integer is converted first.\<close>

definition int_times :: "nat \<Rightarrow> rat \<Rightarrow> rat" where
  "int_times n c = fmul (f64 (of_nat n)) c"

text \<open>
  \<open>round(x, ndigits)\<close> on a float: the decimal rounding of the exact value of \<open>x\<close>,
  converted back to the nearest float.
\<close>

definition round_f64 :: "rat \<Rightarrow> nat \<Rightarrow> rat" where
  "round_f64 x ndigits = f64 (py_round x ndigits)"

section \<open>Conversation analyzer in binary64 arithmetic\<close>

text \<open>
  The scorers, the recommendations, the overall score and the grade once more, with every
  arithmetic operation of the source rounded as CPython rounds it. The definitions above
  compute the same expressions with exact decimals; these are the values the program
  returns.
\<close>

definition score_ritual_consistency_f64 :: "turn list \<Rightarrow> principle_score" where
  "score_ritual_consistency_f64 caregiver_turns =
     (case caregiver_turns of
        [] \<Rightarrow> \<lparr>score = 0, evidence = [No_caregiver_statements]\<rparr>
      | first_turn # _ \<Rightarrow>
          (let s0 = f64 (7 / 10);
               (s1, e1) =
                 (if any_in [''good morning'', ''good afternoon'', ''hello'', ''hi'']
                       (text_lower first_turn)
                  then (fadd s0 (f64 (1 / 10)), [Started_with_greeting])
                  else (fsub s0 (f64 (1 / 10)), [Missing_greeting]));
               (s2, e2) =
                 (if list_ex (\<lambda>t. any_in [''today'', ''time for'', ''visit'', ''together'']
                                    (text_lower t)) (take 3 caregiver_turns)
                  then (fadd s1 (f64 (1 / 10)), e1 @ [Used_structure_words])
                  else (s1, e1));
               (s3, e3) =
                 (if any_in [''thank you'', ''see you'', ''tomorrow'', ''next time'']
                       (text_lower (last caregiver_turns))
                  then (fadd s2 (f64 (1 / 10)), e2 @ [Included_closing])
                  else (fsub s2 (f64 (1 / 10)), e2 @ [Missing_closing]))
           in \<lparr>score = min 1 (max 0 s3), evidence = e3\<rparr>))"

definition score_emotional_validation_f64 :: "turn list \<Rightarrow> turn list \<Rightarrow> principle_score" where
  "score_emotional_validation_f64 caregiver_turns all_turns =
     (let s0 = f64 (7 / 10);
          validation_count =
            count_turns (\<lambda>t. any_in validation_phrases (text_lower t)) caregiver_turns;
          (s1, e1) =
            (if validation_count > 0
             then (fadd s0 (min (f64 (2 / 10)) (int_times validation_count (f64 (1 / 10)))),
                   [Used_validation validation_count])
             else (fsub s0 (f64 (15 / 100)), [No_validation]));
          correction_count =
            count_turns (\<lambda>t. any_in correction_phrases (text_lower t)) caregiver_turns;
          (s2, e2) =
            (if correction_count > 0
             then (fsub s1 (min (f64 (3 / 10)) (int_times correction_count (f64 (15 / 100)))),
                   e1 @ [Corrected_or_tested correction_count])
             else (fadd s1 (f64 (1 / 10)), e1 @ [Did_not_correct]))
      in \<lparr>score = min 1 (max 0 s2), evidence = e2\<rparr>)"

definition score_no_pressure_f64 :: "turn list \<Rightarrow> principle_score" where
  "score_no_pressure_f64 caregiver_turns =
     (let s0 = f64 (8 / 10);
          testing_count = count_turns is_testing_turn caregiver_turns;
          (s1, e1) =
            (if testing_count > 0
             then (fsub s0 (min (f64 (4 / 10)) (int_times testing_count (f64 (15 / 100)))),
                   [Asked_testing testing_count])
             else (fadd s0 (f64 (1 / 10)), [No_testing]));
          invitation_count =
            count_turns (\<lambda>t. any_in invitation_phrases (text_lower t)) caregiver_turns;
          (s2, e2) =
            (if invitation_count > 0
             then (fadd s1 (min (f64 (15 / 100)) (int_times invitation_count (f64 (5 / 100)))),
                   e1 @ [Used_invitations invitation_count])
             else (s1, e1))
      in \<lparr>score = min 1 (max 0 s2), evidence = e2\<rparr>)"

definition score_brevity_structure_f64 :: "turn list \<Rightarrow> principle_score" where
  "score_brevity_structure_f64 caregiver_turns =
     (if caregiver_turns = [] then \<lparr>score = 0, evidence = []\<rparr>
      else
        (let s0 = f64 (7 / 10);
             total_words = sum_list (map word_count caregiver_turns);
             avg_words = int_truediv total_words (length caregiver_turns);
             (s1, e1) =
               (if avg_words \<le> 12 then (fadd s0 (f64 (2 / 10)), [Average_ideal avg_words])
                else if avg_words \<le> 18
                then (fadd s0 (f64 (1 / 10)), [Average_acceptable avg_words])
                else (fsub s0 (f64 (1 / 10)), [Average_too_long avg_words]));
             long_statements = filter (\<lambda>t. word_count t > 25) caregiver_turns;
             (s2, e2) =
               (if long_statements \<noteq> []
                then (fsub s1 (min (f64 (2 / 10))
                                 (int_times (length long_statements) (f64 (5 / 100)))),
                      e1 @ [Statements_over_25 (length long_statements)])
                else (fadd s1 (f64 (1 / 10)), e1 @ [All_appropriately_sized]))
         in \<lparr>score = min 1 (max 0 s2), evidence = e2\<rparr>))"

definition score_principle_f64 :: "turn list \<Rightarrow> string \<Rightarrow> string \<Rightarrow> principle_score" where
  "score_principle_f64 turns principle stage =
     (let caregiver_turns = caregiver_turns_of turns
      in if principle = ''ritual_over_stimulation'' then
           score_ritual_consistency_f64 caregiver_turns
         else if principle = ''emotion_over_accuracy'' then
           score_emotional_validation_f64 caregiver_turns turns
         else if principle = ''presence_over_performance'' then
           score_no_pressure_f64 caregiver_turns
         else if principle = ''short_steady_repeatable'' then
           score_brevity_structure_f64 caregiver_turns
         else \<lparr>score = f64 (5 / 10), evidence = []\<rparr>)"

definition identify_strengths_f64 :: "turn list \<Rightarrow> string \<Rightarrow> string set" where
  "identify_strengths_f64 turns stage =
     (let caregiver_turns = caregiver_turns_of turns;
          s1 = (if list_ex (\<lambda>t. any_in [''that sounds'', ''i understand'', ''i hear you'']
                                 (text_lower t)) caregiver_turns
                then [''Used emotional validation''] else []);
          s2 = (if list_ex (\<lambda>t. str_in ''take your time'' (text_lower t)) caregiver_turns
                then s1 @ [''Gave permission to go slow''] else s1);
          testing_found =
            list_ex (\<lambda>t. str_in ''remember'' (text_lower t) \<and> str_in ''?'' (turn_text t))
              caregiver_turns;
          s3 = (if \<not> testing_found then s2 @ [''Avoided testing memory''] else s2);
          short_statements = filter (\<lambda>t. word_count t \<le> 12) caregiver_turns;
          s4 = (if (if caregiver_turns \<noteq> []
                    then int_truediv (length short_statements) (length caregiver_turns)
                           > f64 (7 / 10)
                    else False)
                then s3 @ [''Kept statements short and clear''] else s3);
          s5 = (if list_ex (\<lambda>t. any_in [''i'm here'', ''together'', ''with you''] (text_lower t))
                     caregiver_turns
                then s4 @ [''Emphasized presence and togetherness''] else s4)
      in set s5)"

fun low_score_recommendations_f64 ::
  "(string \<times> principle_score) list \<Rightarrow> string \<Rightarrow> recommendation list" where
  "low_score_recommendations_f64 [] stage = []"
| "low_score_recommendations_f64 ((principle, score_data) # rest) stage =
     (if score score_data < f64 (6 / 10)
      then (case get_principle_recommendation principle stage of
              Some r \<Rightarrow> r # low_score_recommendations_f64 rest stage
            | None \<Rightarrow> low_score_recommendations_f64 rest stage)
      else low_score_recommendations_f64 rest stage)"

definition generate_recommendations_f64 ::
  "turn list \<Rightarrow> (string \<times> principle_score) list \<Rightarrow> violation list \<Rightarrow> string
     \<Rightarrow> recommendation list" where
  "generate_recommendations_f64 turns scores viols stage =
     (let r1 = low_score_recommendations_f64 scores stage;
          high_severity = filter (\<lambda>v. severity v = High) viols;
          r2 = (if viols \<noteq> [] \<and> high_severity \<noteq> [] then stop_testing_memory # r1
                else r1);
          r3 = (if stage = ''early'' then r2 @ [early_stage_recommendation]
                else if stage = ''moderate'' then r2 @ [moderate_stage_recommendation]
                else if stage = ''late'' then r2 @ [late_stage_recommendation]
                else r2)
      in if r3 = [] then r3 @ [structure_your_visit] else r3)"

text \<open>
  The loop of \<open>_calculate_overall_score\<close>: \<open>total\<close> starts as the integer 0 and each
  \<open>total += score * weight\<close> is a float multiplication followed by a float addition; the
  weights are the float literals of \<open>PRINCIPLES\<close>.
\<close>

fun weighted_total_f64 :: "(string \<times> principle_score) list \<Rightarrow> rat \<Rightarrow> py_error + rat" where
  "weighted_total_f64 [] tot = Inr tot"
| "weighted_total_f64 ((principle_key, score_data) # rest) tot =
     (case map_of PRINCIPLES principle_key of
        None \<Rightarrow> Inl KeyError
      | Some p \<Rightarrow>
          weighted_total_f64 rest (fadd tot (fmul (score score_data) (f64 (weight p)))))"

definition calculate_overall_score_f64 ::
  "(string \<times> principle_score) list \<Rightarrow> py_error + rat" where
  "calculate_overall_score_f64 scores =
     (case weighted_total_f64 scores 0 of
        Inl e \<Rightarrow> Inl e
      | Inr tot \<Rightarrow> Inr (round_f64 tot 2))"

definition score_to_grade_f64 :: "rat \<Rightarrow> string" where
  "score_to_grade_f64 s =
     (if s \<ge> f64 (90 / 100) then ''A''
      else if s \<ge> f64 (80 / 100) then ''B''
      else if s \<ge> f64 (70 / 100) then ''C''
      else if s \<ge> f64 (60 / 100) then ''D''
      else ''F'')"

definition analyze_turns_f64 :: "turn list \<Rightarrow> string \<Rightarrow> string \<Rightarrow> py_error + report" where
  "analyze_turns_f64 turns conversation_text stage =
     (let scores = map (\<lambda>(principle_key, principle).
                          (principle_key, score_principle_f64 turns principle_key stage))
                     PRINCIPLES;
          viols = detect_violations turns stage;
          strs = identify_strengths_f64 turns stage;
          recs = generate_recommendations_f64 turns scores viols stage
      in case calculate_overall_score_f64 scores of
           Inl e \<Rightarrow> Inl e
         | Inr overall \<Rightarrow>
             Inr \<lparr>overall_score = overall, grade = score_to_grade_f64 overall,
                  principle_scores = scores, violations = viols, strengths = strs,
                  recommendations = recs, phase_analysis = analyze_phases turns,
                  turn_count = length turns, conversation_length = length conversation_text,
                  dementia_stage = stage\<rparr>)"

definition analyze_conversation_f64 ::
  "string \<Rightarrow> string \<Rightarrow> string \<Rightarrow> string \<Rightarrow> py_error + report" where
  "analyze_conversation_f64 conversation_text caregiver_name patient_name stage =
     (case parse_conversation conversation_text caregiver_name patient_name of
        Inl e \<Rightarrow> Inl e
      | Inr turns \<Rightarrow> analyze_turns_f64 turns conversation_text stage)"

abbreviation scores_of_f64 :: "turn list \<Rightarrow> string \<Rightarrow> (string \<times> principle_score) list" where
  "scores_of_f64 turns stage \<equiv>
     [(''ritual_over_stimulation'', score_principle_f64 turns ''ritual_over_stimulation'' stage),
      (''emotion_over_accuracy'', score_principle_f64 turns ''emotion_over_accuracy'' stage),
      (''presence_over_performance'',
       score_principle_f64 turns ''presence_over_performance'' stage),
      (''short_steady_repeatable'',
       score_principle_f64 turns ''short_steady_repeatable'' stage)]"

definition steady_transcript :: string where
  "steady_transcript =
     ''Alice: Good morning, Mom. It's time for our visit.\<newline>'' @
     ''Alice: We can sit here. Take your time.\<newline>'' @
     ''Alice: It's okay to rest. Thank you, see you tomorrow.''"

text \<open>The float total of the loop for the four principles in the order of \<open>PRINCIPLES\<close>.\<close>

definition weighted_sum_f64 :: "rat \<Rightarrow> rat \<Rightarrow> rat \<Rightarrow> rat \<Rightarrow> rat" where
  "weighted_sum_f64 r e p b =
     fadd (fadd (fadd (fadd 0 (fmul r (f64 (25 / 100)))) (fmul e (f64 (30 / 100))))
                (fmul p (f64 (25 / 100))))
          (fmul b (f64 (20 / 100)))"

section \<open>Properties of the safety assessment tool\<close>

lemma reports_distinct:
  "distinct [critical_report, elevated_report, monitor_report, clear_report]"
  by code_simp

text \<open>
  C1: the tiers are tried in the order crisis, distress, agitation, and the first tier with
  a keyword occurring in the lowercased message decides the report. A crisis keyword gives
  the CRITICAL / HIGH report whatever other keywords occur; the message
  "I'm angry and want to die" holds an agitation keyword and is still reported critical,
  not monitor.
\<close>

theorem safety_priority_order:
  "(any_in crisis_keywords (lower m) \<longrightarrow>
      SafetyAssessmentTool_run m ctx = critical_report) \<and>
   (\<not> any_in crisis_keywords (lower m) \<and> any_in distress_keywords (lower m) \<longrightarrow>
      SafetyAssessmentTool_run m ctx = elevated_report) \<and>
   (\<not> any_in crisis_keywords (lower m) \<and> \<not> any_in distress_keywords (lower m) \<and>
    any_in agitation_keywords (lower m) \<longrightarrow>
      SafetyAssessmentTool_run m ctx = monitor_report) \<and>
   distinct [critical_report, elevated_report, monitor_report, clear_report] \<and>
   str_in ''SAFETY ASSESSMENT: CRITICAL'' critical_report \<and>
   str_in ''Risk Level: HIGH'' critical_report \<and>
   any_in agitation_keywords (lower ''I'm angry and want to die'') \<and>
   SafetyAssessmentTool_run ''I'm angry and want to die'' ctx = critical_report \<and>
   SafetyAssessmentTool_run ''I'm angry and want to die'' ctx \<noteq> monitor_report"
proof -
  have prio: "(any_in crisis_keywords (lower m) \<longrightarrow>
      SafetyAssessmentTool_run m ctx = critical_report) \<and>
   (\<not> any_in crisis_keywords (lower m) \<and> any_in distress_keywords (lower m) \<longrightarrow>
      SafetyAssessmentTool_run m ctx = elevated_report) \<and>
   (\<not> any_in crisis_keywords (lower m) \<and> \<not> any_in distress_keywords (lower m) \<and>
    any_in agitation_keywords (lower m) \<longrightarrow>
      SafetyAssessmentTool_run m ctx = monitor_report)"
    by (simp add: SafetyAssessmentTool_run_def Let_def)
  have hdr: "str_in ''SAFETY ASSESSMENT: CRITICAL'' critical_report"
    "str_in ''Risk Level: HIGH'' critical_report"
    by code_simp+
  have ag: "any_in agitation_keywords (lower ''I'm angry and want to die'')"
    by code_simp
  have cr: "any_in crisis_keywords (lower ''I'm angry and want to die'')"
    by code_simp
  have ex: "SafetyAssessmentTool_run ''I'm angry and want to die'' ctx = critical_report"
    using cr by (simp add: SafetyAssessmentTool_run_def Let_def)
  have ne: "critical_report \<noteq> monitor_report"
    using reports_distinct by simp
  show ?thesis using prio hdr ag ex ne reports_distinct by simp
qed

theorem safety_priority_order_witness:
  "any_in crisis_keywords (lower ''I'm angry and want to die'') \<and>
   SafetyAssessmentTool_run ''I'm angry and want to die'' '''' = critical_report \<and>
   \<not> any_in crisis_keywords (lower ''Help me, I am so angry'') \<and>
   any_in distress_keywords (lower ''Help me, I am so angry'') \<and>
   SafetyAssessmentTool_run ''Help me, I am so angry'' '''' = elevated_report \<and>
   \<not> any_in crisis_keywords (lower ''Please STOP'') \<and>
   \<not> any_in distress_keywords (lower ''Please STOP'') \<and>
   any_in agitation_keywords (lower ''Please STOP'') \<and>
   SafetyAssessmentTool_run ''Please STOP'' '''' = monitor_report"
proof -
  have a: "any_in crisis_keywords (lower ''I'm angry and want to die'')" by code_simp
  have b: "\<not> any_in crisis_keywords (lower ''Help me, I am so angry'')"
    "any_in distress_keywords (lower ''Help me, I am so angry'')" by code_simp+
  have c: "\<not> any_in crisis_keywords (lower ''Please STOP'')"
    "\<not> any_in distress_keywords (lower ''Please STOP'')"
    "any_in agitation_keywords (lower ''Please STOP'')" by code_simp+
  show ?thesis
    using a b c
      safety_priority_order [of "''I'm angry and want to die''" "''''"]
      safety_priority_order [of "''Help me, I am so angry''" "''''"]
      safety_priority_order [of "''Please STOP''" "''''"]
    by blast
qed

text \<open>
  C2: every message gets one of the four reports, a message without any crisis, distress
  or agitation keyword gets the CLEAR / NONE report, and the four example messages get the
  critical (with the 988 hotline), elevated, monitor and clear reports.
\<close>

theorem safety_total:
  "SafetyAssessmentTool_run m ctx \<in> set [critical_report, elevated_report, monitor_report, clear_report] \<and>
   (\<not> any_in crisis_keywords (lower m) \<and> \<not> any_in distress_keywords (lower m) \<and>
    \<not> any_in agitation_keywords (lower m) \<longrightarrow>
      SafetyAssessmentTool_run m ctx = clear_report) \<and>
   str_in ''SAFETY ASSESSMENT: CLEAR'' clear_report \<and>
   str_in ''Risk Level: NONE'' clear_report \<and>
   SafetyAssessmentTool_run ''I want to kill myself'' ctx = critical_report \<and>
   str_in ''SAFETY ASSESSMENT: CRITICAL'' critical_report \<and>
   str_in ''Risk Level: HIGH'' critical_report \<and>
   str_in ''988'' critical_report \<and>
   SafetyAssessmentTool_run ''I'm scared, I can't breathe'' ctx = elevated_report \<and>
   str_in ''SAFETY ASSESSMENT: ELEVATED'' elevated_report \<and>
   elevated_report \<noteq> critical_report \<and>
   SafetyAssessmentTool_run ''I'm so angry, leave me alone'' ctx = monitor_report \<and>
   str_in ''SAFETY ASSESSMENT: MONITOR'' monitor_report \<and>
   SafetyAssessmentTool_run ''What a nice day'' ctx = clear_report"
proof -
  have tot: "SafetyAssessmentTool_run m ctx \<in> set [critical_report, elevated_report, monitor_report, clear_report]"
    by (simp add: SafetyAssessmentTool_run_def Let_def)
  have fall: "\<not> any_in crisis_keywords (lower m) \<and> \<not> any_in distress_keywords (lower m) \<and>
    \<not> any_in agitation_keywords (lower m) \<longrightarrow>
      SafetyAssessmentTool_run m ctx = clear_report"
    by (simp add: SafetyAssessmentTool_run_def Let_def)
  have hdr: "str_in ''SAFETY ASSESSMENT: CLEAR'' clear_report"
    "str_in ''Risk Level: NONE'' clear_report"
    "str_in ''SAFETY ASSESSMENT: CRITICAL'' critical_report"
    "str_in ''Risk Level: HIGH'' critical_report"
    "str_in ''988'' critical_report"
    "str_in ''SAFETY ASSESSMENT: ELEVATED'' elevated_report"
    "str_in ''SAFETY ASSESSMENT: MONITOR'' monitor_report"
    by code_simp+
  have k1: "any_in crisis_keywords (lower ''I want to kill myself'')" by code_simp
  have k2: "\<not> any_in crisis_keywords (lower ''I'm scared, I can't breathe'')"
    "any_in distress_keywords (lower ''I'm scared, I can't breathe'')" by code_simp+
  have k3: "\<not> any_in crisis_keywords (lower ''I'm so angry, leave me alone'')"
    "\<not> any_in distress_keywords (lower ''I'm so angry, leave me alone'')"
    "any_in agitation_keywords (lower ''I'm so angry, leave me alone'')" by code_simp+
  have k4: "\<not> any_in crisis_keywords (lower ''What a nice day'')"
    "\<not> any_in distress_keywords (lower ''What a nice day'')"
    "\<not> any_in agitation_keywords (lower ''What a nice day'')" by code_simp+
  have e1: "SafetyAssessmentTool_run ''I want to kill myself'' ctx = critical_report"
    using k1 by (simp add: SafetyAssessmentTool_run_def Let_def)
  have e2: "SafetyAssessmentTool_run ''I'm scared, I can't breathe'' ctx = elevated_report"
    using k2 by (simp add: SafetyAssessmentTool_run_def Let_def)
  have e3: "SafetyAssessmentTool_run ''I'm so angry, leave me alone'' ctx = monitor_report"
    using k3 by (simp add: SafetyAssessmentTool_run_def Let_def)
  have e4: "SafetyAssessmentTool_run ''What a nice day'' ctx = clear_report"
    using k4 by (simp add: SafetyAssessmentTool_run_def Let_def)
  have ne: "elevated_report \<noteq> critical_report"
    using reports_distinct by auto
  show ?thesis using tot fall hdr e1 e2 e3 e4 ne by (intro conjI) assumption+
qed

theorem safety_total_witness:
  "\<not> any_in crisis_keywords (lower ''What a nice day'') \<and>
   \<not> any_in distress_keywords (lower ''What a nice day'') \<and>
   \<not> any_in agitation_keywords (lower ''What a nice day'') \<and>
   SafetyAssessmentTool_run ''What a nice day'' ''ctx'' = clear_report"
proof -
  have k4: "\<not> any_in crisis_keywords (lower ''What a nice day'')"
    "\<not> any_in distress_keywords (lower ''What a nice day'')"
    "\<not> any_in agitation_keywords (lower ''What a nice day'')" by code_simp+
  show ?thesis
    using k4 safety_total [of "''What a nice day''" "''ctx''"] by blast
qed

section \<open>Properties of the turn parser\<close>

lemma str_in_single: "str_in [x] s \<longleftrightarrow> x \<in> set s"
  by (induction s) auto

lemma split_once_found:
  "sep \<in> set s \<Longrightarrow>
   split_once sep s = [takeWhile (\<lambda>c. c \<noteq> sep) s, tl (dropWhile (\<lambda>c. c \<noteq> sep) s)]"
  by (induction s) auto

lemma lower_colon: "lower (n @ '':'') = lower n @ '':''"
  by (simp add: lower_def lower_char_def)

lemma parse_line_spec: "parse_line cg pt line = Inr (spec_turn cg pt line)"
  by (simp add: parse_line_def spec_turn_def spec_label_speaker_def startswith_def
      lower_colon str_in_single split_once_found Let_def)

lemma parse_lines_spec:
  "parse_lines cg pt ls acc =
   Inr (acc @ map (spec_turn cg pt) (filter (\<lambda>l. l \<noteq> []) (map strip ls)))"
  by (induction ls arbitrary: acc) (simp_all add: Let_def parse_line_spec)

lemma split_on_nonempty: "split_on sep s \<noteq> []"
  by (induction s) (auto split: list.split)

lemma strip_space_cons: "is_space c \<Longrightarrow> strip (c # l) = strip l"
  by (simp add: strip_def)

lemma strip_Nil: "strip [] = []"
  by (simp add: strip_def)

text \<open>Stripping the whole transcript first does not change its non-empty lines.\<close>

lemma lines_drop_leading:
  "filter (\<lambda>l. l \<noteq> []) (map strip (split_on (CHR ''\<newline>'') (dropWhile is_space s))) =
   filter (\<lambda>l. l \<noteq> []) (map strip (split_on (CHR ''\<newline>'') s))"
proof (induction s)
  case Nil
  then show ?case by simp
next
  case (Cons c cs)
  show ?case
  proof (cases "is_space c")
    case False
    then show ?thesis by simp
  next
    case True
    show ?thesis
    proof (cases "c = CHR ''\<newline>''")
      case nl: True
      then show ?thesis using True Cons.IH by (simp add: strip_Nil)
    next
      case nonl: False
      obtain l ls where sp: "split_on (CHR ''\<newline>'') cs = l # ls"
        using split_on_nonempty [of "CHR ''\<newline>''" cs]
        by (cases "split_on (CHR ''\<newline>'') cs") auto
      show ?thesis using True nonl Cons.IH sp by (simp add: strip_space_cons)
    qed
  qed
qed

lemma split_on_snoc:
  "split_on sep (s @ [c]) =
   (if c = sep then split_on sep s @ [ [] ]
    else butlast (split_on sep s) @ [last (split_on sep s) @ [c]])"
proof (induction s)
  case Nil
  then show ?case by simp
next
  case (Cons a s)
  obtain l ls where sp: "split_on sep s = l # ls"
    using split_on_nonempty [of sep s] by (cases "split_on sep s") auto
  show ?case using Cons.IH sp by (auto split: list.split)
qed

lemma strip_space_snoc:
  assumes "is_space c"
  shows "strip (l @ [c]) = strip l"
proof (cases "\<forall>x\<in>set l. is_space x")
  case True
  have 1: "dropWhile is_space (l @ [c]) = []"
    using True assms by (simp add: dropWhile_eq_Nil_conv)
  have 2: "dropWhile is_space l = []"
    using True by (simp add: dropWhile_eq_Nil_conv)
  show ?thesis unfolding strip_def 1 2 by simp
next
  case False
  then have "dropWhile is_space (l @ [c]) = dropWhile is_space l @ [c]"
    by (simp add: dropWhile_append)
  then show ?thesis using assms by (simp add: strip_def)
qed

lemma lines_drop_trailing:
  "filter (\<lambda>l. l \<noteq> [])
     (map strip (split_on (CHR ''\<newline>'') (rev (dropWhile is_space (rev s))))) =
   filter (\<lambda>l. l \<noteq> []) (map strip (split_on (CHR ''\<newline>'') s))"
proof (induction s rule: rev_induct)
  case Nil
  then show ?case by simp
next
  case (snoc c s)
  show ?case
  proof (cases "is_space c")
    case False
    then show ?thesis by simp
  next
    case True
    have "filter (\<lambda>l. l \<noteq> []) (map strip (split_on (CHR ''\<newline>'') (s @ [c]))) =
          filter (\<lambda>l. l \<noteq> []) (map strip (split_on (CHR ''\<newline>'') s))"
    proof (cases "c = CHR ''\<newline>''")
      case nl: True
      then show ?thesis by (simp add: split_on_snoc strip_Nil)
    next
      case nonl: False
      have ne: "split_on (CHR ''\<newline>'') s \<noteq> []" by (rule split_on_nonempty)
      have "map strip (butlast (split_on (CHR ''\<newline>'') s) @
                [last (split_on (CHR ''\<newline>'') s) @ [c]])
            = map strip (butlast (split_on (CHR ''\<newline>'') s) @
                [last (split_on (CHR ''\<newline>'') s)])"
        using True by (simp add: strip_space_snoc)
      then show ?thesis using nonl ne by (simp add: split_on_snoc)
    qed
    then show ?thesis using True snoc.IH by simp
  qed
qed

lemma lines_strip:
  "filter (\<lambda>l. l \<noteq> []) (map strip (split_on (CHR ''\<newline>'') (strip s))) = spec_lines s"
  unfolding strip_def [of s] spec_lines_def
  by (simp only: lines_drop_trailing lines_drop_leading)

lemma parse_conversation_spec:
  "parse_conversation t cg pt = Inr (spec_turns t cg pt)"
  by (simp add: parse_conversation_def parse_lines_spec lines_strip spec_turns_def)

lemma spec_turns_lower: "t \<in> set (spec_turns text cg pt) \<Longrightarrow> text_lower t = lower (turn_text t)"
  by (auto simp: spec_turns_def spec_turn_def make_turn_def)

text \<open>
  C5: the parser never fails and returns, in order, one turn for each line of the transcript
  that is non-empty once stripped, the turn being the one the specification's three rules
  give; the empty transcript has no turns. On a transcript with a blank line, a line that
  is only spaces, a name prefix in another case, a generic label and two lines that fit
  no rule, the two malformed lines become turns of an unknown speaker.
\<close>

theorem parse_conversation_contract:
  "parse_conversation transcript caregiver_name patient_name =
     Inr (map (spec_turn caregiver_name patient_name) (spec_lines transcript)) \<and>
   parse_conversation [] caregiver_name patient_name = Inr [] \<and>
   parse_conversation mixed_transcript ''alice'' ''Bob'' =
     Inr [make_turn Caregiver ''Good morning'', make_turn Patient ''hi there'',
          make_turn Caregiver ''ok'', make_turn Unknown ''hello'', make_turn Unknown ''what'']"
proof -
  have a: "parse_conversation transcript caregiver_name patient_name =
     Inr (map (spec_turn caregiver_name patient_name) (spec_lines transcript))"
    using parse_conversation_spec by (simp add: spec_turns_def)
  have b: "parse_conversation [] caregiver_name patient_name = Inr []"
    by (simp add: parse_conversation_def strip_def)
  have c: "parse_conversation mixed_transcript ''alice'' ''Bob'' =
     Inr [make_turn Caregiver ''Good morning'', make_turn Patient ''hi there'',
          make_turn Caregiver ''ok'', make_turn Unknown ''hello'', make_turn Unknown ''what'']"
    by code_simp
  show ?thesis using a b c by (intro conjI)
qed

section \<open>Properties of the principle scorers\<close>

lemma clamp_unit: "0 \<le> min 1 (max 0 (x::rat)) \<and> min 1 (max 0 x) \<le> 1"
  by simp

lemma ritual_unit:
  "0 \<le> score (score_ritual_consistency ts) \<and> score (score_ritual_consistency ts) \<le> 1"
proof (cases ts)
  case Nil
  then show ?thesis by (simp add: score_ritual_consistency_def)
next
  case (Cons t rest)
  show ?thesis
    unfolding score_ritual_consistency_def Let_def case_prod_beta Cons list.case
    by (simp only: principle_score.select_convs) (rule clamp_unit)
qed

lemma emotion_unit:
  "0 \<le> score (score_emotional_validation ts all_ts) \<and>
   score (score_emotional_validation ts all_ts) \<le> 1"
  unfolding score_emotional_validation_def Let_def case_prod_beta
  by (simp only: principle_score.select_convs) (rule clamp_unit)

lemma pressure_unit:
  "0 \<le> score (score_no_pressure ts) \<and> score (score_no_pressure ts) \<le> 1"
  unfolding score_no_pressure_def Let_def case_prod_beta
  by (simp only: principle_score.select_convs) (rule clamp_unit)

lemma brevity_unit:
  "0 \<le> score (score_brevity_structure ts) \<and> score (score_brevity_structure ts) \<le> 1"
proof (cases "ts = []")
  case True
  then show ?thesis by (simp add: score_brevity_structure_def)
next
  case False
  show ?thesis
    unfolding score_brevity_structure_def Let_def case_prod_beta if_not_P [OF False]
    by (simp only: principle_score.select_convs) (rule clamp_unit)
qed

lemma score_principle_unit:
  "0 \<le> score (score_principle turns p stage) \<and> score (score_principle turns p stage) \<le> 1"
  unfolding score_principle_def Let_def
  using ritual_unit emotion_unit pressure_unit brevity_unit by simp

text \<open>
  C3: whatever the turns (so for every parsed transcript and every pair of names) and
  whatever the stage, each of the four sub-scorers, called directly or through
  \<open>_score_principle\<close> under any key, returns a score between 0 and 1. Three caregiver
  turns with a gentle invitation each add up to 0.8 + 0.1 + 0.15 before the clamp, and the
  score returned is 1.
\<close>

theorem principle_scores_clamped:
  "0 \<le> score (score_ritual_consistency caregiver_turns) \<and>
   score (score_ritual_consistency caregiver_turns) \<le> 1 \<and>
   0 \<le> score (score_emotional_validation caregiver_turns turns) \<and>
   score (score_emotional_validation caregiver_turns turns) \<le> 1 \<and>
   0 \<le> score (score_no_pressure caregiver_turns) \<and>
   score (score_no_pressure caregiver_turns) \<le> 1 \<and>
   0 \<le> score (score_brevity_structure caregiver_turns) \<and>
   score (score_brevity_structure caregiver_turns) \<le> 1 \<and>
   0 \<le> score (score_principle turns principle stage) \<and>
   score (score_principle turns principle stage) \<le> 1 \<and>
   score_no_pressure three_invitations =
     \<lparr>score = 1, evidence = [No_testing, Used_invitations 3]\<rparr>"
proof -
  have ex: "score_no_pressure three_invitations =
     \<lparr>score = 1, evidence = [No_testing, Used_invitations 3]\<rparr>"
    by code_simp
  show ?thesis
    using ritual_unit [of caregiver_turns] emotion_unit [of caregiver_turns turns]
      pressure_unit [of caregiver_turns] brevity_unit [of caregiver_turns]
      score_principle_unit [of turns principle stage] ex
    by (intro conjI) simp_all
qed

section \<open>Properties of the overall score and the grade\<close>

lemma round_half_even_near:
  "\<bar>of_int (round_half_even x) - x\<bar> \<le> 1 / 2"
proof -
  define f where "f = \<lfloor>x\<rfloor>"
  define d where "d = x - of_int f"
  have d: "0 \<le> d" "d < 1" unfolding d_def f_def by linarith+
  have r: "round_half_even x =
      (if d < 1 / 2 then f else if 1 / 2 < d then f + 1 else if even f then f else f + 1)"
    unfolding round_half_even_def Let_def d_def f_def by simp
  have x: "x = of_int f + d" by (simp add: d_def)
  show ?thesis unfolding r using d by (auto simp: x abs_if)
qed

lemma round_half_even_lower: "0 \<le> x \<Longrightarrow> 0 \<le> round_half_even x"
proof -
  assume "0 \<le> x"
  then have "0 \<le> \<lfloor>x\<rfloor>" by simp
  then show ?thesis unfolding round_half_even_def Let_def by auto
qed

lemma weighted_sum_unit:
  assumes "0 \<le> r \<and> r \<le> 1" "0 \<le> e \<and> e \<le> 1" "0 \<le> p \<and> p \<le> 1" "0 \<le> b \<and> b \<le> 1"
  shows "0 \<le> weighted_sum r e p b \<and> weighted_sum r e p b \<le> 1"
  using assms unfolding weighted_sum_def by simp

lemma calculate_overall_score_principles:
  "calculate_overall_score
     [(''ritual_over_stimulation'', a), (''emotion_over_accuracy'', b),
      (''presence_over_performance'', c), (''short_steady_repeatable'', d)] =
   Inr (py_round (weighted_sum (score a) (score b) (score c) (score d)) 2)"
  by (simp add: calculate_overall_score_def PRINCIPLES_def weighted_sum_def)

lemma principle_scores_list:
  "map (\<lambda>(principle_key, principle). (principle_key, score_principle turns principle_key stage))
     PRINCIPLES = scores_of turns stage"
  by (simp add: PRINCIPLES_def)

lemma analyze_turns_report:
  "analyze_turns turns transcript stage =
   Inr \<lparr>overall_score = overall_of turns stage,
        grade = score_to_grade (overall_of turns stage),
        principle_scores = scores_of turns stage,
        violations = detect_violations turns stage,
        strengths = identify_strengths turns stage,
        recommendations =
          generate_recommendations turns (scores_of turns stage)
            (detect_violations turns stage) stage,
        phase_analysis = analyze_phases turns,
        turn_count = length turns, conversation_length = length transcript,
        dementia_stage = stage\<rparr>"
  unfolding analyze_turns_def principle_scores_list Let_def
  by (simp add: calculate_overall_score_principles)

lemma analyze_conversation_parsed:
  "parse_conversation transcript cg pt = Inr turns \<Longrightarrow>
   analyze_conversation transcript cg pt stage = analyze_turns turns transcript stage"
  by (simp add: analyze_conversation_def)



section \<open>Properties of the analysis in binary64 arithmetic\<close>

lemma ulp_pos: "0 < x \<Longrightarrow> 0 < ulp x"
proof (induction x rule: ulp.induct)
  case (1 x)
  show ?case
  proof (cases "x < 1")
    case True
    then have "0 < ulp (2 * x)" using 1 by simp
    then show ?thesis using True 1(3) by (subst ulp.simps) simp
  next
    case False
    show ?thesis
    proof (cases "2 \<le> x")
      case True
      then have "0 < ulp (x / 2)" using 1 False by simp
      then show ?thesis using True False 1(3) by (subst ulp.simps) simp
    next
      case nt: False
      then show ?thesis using False 1(3) by (subst ulp.simps) simp
    qed
  qed
qed

lemma ulp_le: "0 < x \<Longrightarrow> ulp x * 2 ^ 52 \<le> x"
proof (induction x rule: ulp.induct)
  case (1 x)
  show ?case
  proof (cases "x < 1")
    case True
    then have "ulp (2 * x) * 2 ^ 52 \<le> 2 * x" using 1 by simp
    then show ?thesis using True 1(3) by (subst ulp.simps) simp
  next
    case False
    show ?thesis
    proof (cases "2 \<le> x")
      case True
      then have "ulp (x / 2) * 2 ^ 52 \<le> x / 2" using 1 False by simp
      then show ?thesis using True False 1(3) by (subst ulp.simps) simp
    next
      case nt: False
      then show ?thesis using False 1(3) by (subst ulp.simps) simp
    qed
  qed
qed

lemma f64_pos_error:
  assumes "0 < x"
  shows "\<bar>f64 x - x\<bar> \<le> ulp x / 2"
proof -
  have u: "0 < ulp x" using assms by (rule ulp_pos)
  have "\<bar>of_int (round_half_even (x / ulp x)) - x / ulp x\<bar> \<le> 1 / 2"
    by (rule round_half_even_near)
  then have "\<bar>of_int (round_half_even (x / ulp x)) - x / ulp x\<bar> * ulp x \<le> 1 / 2 * ulp x"
    using u by (simp add: mult_right_mono)
  moreover have "(of_int (round_half_even (x / ulp x)) - x / ulp x) * ulp x =
      of_int (round_half_even (x / ulp x)) * ulp x - x"
    using u by (simp add: left_diff_distrib)
  then have "\<bar>of_int (round_half_even (x / ulp x)) * ulp x - x\<bar> =
      \<bar>of_int (round_half_even (x / ulp x)) - x / ulp x\<bar> * \<bar>ulp x\<bar>"
    by (metis abs_mult)
  ultimately have "\<bar>of_int (round_half_even (x / ulp x)) * ulp x - x\<bar> \<le> ulp x / 2"
    using u by simp
  then show ?thesis using assms by (simp add: f64_def)
qed

lemma f64_within:
  assumes "0 \<le> x" "x \<le> 2"
  shows "x - 1 / 100000 \<le> f64 x \<and> f64 x \<le> x + 1 / 100000 \<and> 0 \<le> f64 x"
proof (cases "x = 0")
  case True
  then show ?thesis by (simp add: f64_def)
next
  case False
  then have p: "0 < x" using assms by simp
  have "ulp x * 2 ^ 52 \<le> x" using p by (rule ulp_le)
  then have "ulp x * 2 ^ 52 \<le> 2" using assms by simp
  then have "ulp x / 2 \<le> 1 / 100000" by simp
  then have e: "\<bar>f64 x - x\<bar> \<le> 1 / 100000" using f64_pos_error [OF p] by simp
  have "0 \<le> round_half_even (x / ulp x)"
    using p ulp_pos [OF p] by (intro round_half_even_lower) simp
  then have n: "0 \<le> f64 x" using p ulp_pos [OF p] by (simp add: f64_def)
  from e have "x - 1 / 100000 \<le> f64 x" "f64 x \<le> x + 1 / 100000" by linarith+
  then show ?thesis using n by simp
qed

lemma product_within:
  assumes "0 \<le> s" "s \<le> 1" "0 \<le> w" "w \<le> 1"
  shows "s * w - 2 / 100000 \<le> fmul s (f64 w) \<and> fmul s (f64 w) \<le> s * w + 2 / 100000 \<and>
         0 \<le> fmul s (f64 w)"
proof -
  have fw: "w - 1 / 100000 \<le> f64 w" "f64 w \<le> w + 1 / 100000" "0 \<le> f64 w"
    using f64_within [of w] assms by simp_all
  have lo: "0 \<le> s * f64 w" using assms(1) fw(3) by simp
  have "s * f64 w \<le> 1 * f64 w" using assms(2) fw(3) by (rule mult_right_mono)
  then have hi: "s * f64 w \<le> 2" using fw(2) assms(4) by simp
  have "s * (f64 w - w) \<le> s * (1 / 100000)"
    using assms(1) fw(2) by (intro mult_left_mono) simp_all
  also have "\<dots> \<le> 1 * (1 / 100000)" using assms(2) by (intro mult_right_mono) simp_all
  finally have a: "s * f64 w \<le> s * w + 1 / 100000" by (simp add: right_diff_distrib)
  have "s * (w - f64 w) \<le> s * (1 / 100000)"
    using assms(1) fw(1) by (intro mult_left_mono) simp_all
  also have "\<dots> \<le> 1 * (1 / 100000)" using assms(2) by (intro mult_right_mono) simp_all
  finally have b: "s * w - 1 / 100000 \<le> s * f64 w" by (simp add: right_diff_distrib)
  have c: "s * f64 w - 1 / 100000 \<le> f64 (s * f64 w)"
    "f64 (s * f64 w) \<le> s * f64 w + 1 / 100000" "0 \<le> f64 (s * f64 w)"
    using f64_within [OF lo hi] by simp_all
  show ?thesis unfolding fmul_def using a b c by simp
qed

lemma sum_within:
  assumes "0 \<le> a" "0 \<le> b" "a + b \<le> 2"
  shows "a + b - 1 / 100000 \<le> fadd a b \<and> fadd a b \<le> a + b + 1 / 100000 \<and> 0 \<le> fadd a b"
  unfolding fadd_def using f64_within [of "a + b"] assms by simp

lemma total_within:
  assumes "0 \<le> r \<and> r \<le> 1" "0 \<le> e \<and> e \<le> 1" "0 \<le> p \<and> p \<le> 1" "0 \<le> b \<and> b \<le> 1"
  shows "weighted_sum r e p b - 12 / 100000 \<le> weighted_sum_f64 r e p b \<and>
         weighted_sum_f64 r e p b \<le> weighted_sum r e p b + 12 / 100000 \<and>
         0 \<le> weighted_sum_f64 r e p b"
proof -
  define p1 where "p1 = fmul r (f64 (25 / 100))"
  define p2 where "p2 = fmul e (f64 (30 / 100))"
  define p3 where "p3 = fmul p (f64 (25 / 100))"
  define p4 where "p4 = fmul b (f64 (20 / 100))"
  define q1 where "q1 = r * (25 / 100)"
  define q2 where "q2 = e * (30 / 100)"
  define q3 where "q3 = p * (25 / 100)"
  define q4 where "q4 = b * (20 / 100)"
  have P1: "q1 - 2 / 100000 \<le> p1" "p1 \<le> q1 + 2 / 100000" "0 \<le> p1"
    unfolding p1_def q1_def using product_within [of r "25 / 100"] assms(1) by simp_all
  have P2: "q2 - 2 / 100000 \<le> p2" "p2 \<le> q2 + 2 / 100000" "0 \<le> p2"
    unfolding p2_def q2_def using product_within [of e "30 / 100"] assms(2) by simp_all
  have P3: "q3 - 2 / 100000 \<le> p3" "p3 \<le> q3 + 2 / 100000" "0 \<le> p3"
    unfolding p3_def q3_def using product_within [of p "25 / 100"] assms(3) by simp_all
  have P4: "q4 - 2 / 100000 \<le> p4" "p4 \<le> q4 + 2 / 100000" "0 \<le> p4"
    unfolding p4_def q4_def using product_within [of b "20 / 100"] assms(4) by simp_all
  have Q: "q1 \<le> 25 / 100" "q2 \<le> 30 / 100" "q3 \<le> 25 / 100" "q4 \<le> 20 / 100"
    unfolding q1_def q2_def q3_def q4_def using assms by simp_all
  define a1 where "a1 = fadd 0 p1"
  define a2 where "a2 = fadd a1 p2"
  define a3 where "a3 = fadd a2 p3"
  define a4 where "a4 = fadd a3 p4"
  have A1: "0 + p1 - 1 / 100000 \<le> a1" "a1 \<le> 0 + p1 + 1 / 100000" "0 \<le> a1"
    unfolding a1_def using sum_within [of 0 p1] P1 Q by simp_all
  have A2: "a1 + p2 - 1 / 100000 \<le> a2" "a2 \<le> a1 + p2 + 1 / 100000" "0 \<le> a2"
    unfolding a2_def using sum_within [of a1 p2] A1 P1 P2 Q by simp_all
  have A3: "a2 + p3 - 1 / 100000 \<le> a3" "a3 \<le> a2 + p3 + 1 / 100000" "0 \<le> a3"
    unfolding a3_def using sum_within [of a2 p3] A1 A2 P1 P2 P3 Q by simp_all
  have A4: "a3 + p4 - 1 / 100000 \<le> a4" "a4 \<le> a3 + p4 + 1 / 100000" "0 \<le> a4"
    unfolding a4_def using sum_within [of a3 p4] A1 A2 A3 P1 P2 P3 P4 Q by simp_all
  have w: "weighted_sum r e p b = q1 + q2 + q3 + q4"
    by (simp add: weighted_sum_def q1_def q2_def q3_def q4_def)
  have f: "weighted_sum_f64 r e p b = a4"
    by (simp add: weighted_sum_f64_def a4_def a3_def a2_def a1_def p1_def p2_def p3_def p4_def)
  show ?thesis unfolding w f using A1 A2 A3 A4 P1 P2 P3 P4 by simp
qed

lemma round_half_even_below:
  assumes "x < of_int n + 1 / 2"
  shows "round_half_even x \<le> n"
proof -
  have fl: "\<lfloor>x\<rfloor> \<le> n" using assms by (simp add: floor_le_iff)
  show ?thesis
  proof (cases "\<lfloor>x\<rfloor> = n")
    case True
    then have "x - of_int \<lfloor>x\<rfloor> < 1 / 2" using assms by simp
    then show ?thesis using True unfolding round_half_even_def Let_def by simp
  next
    case False
    then have "\<lfloor>x\<rfloor> + 1 \<le> n" using fl by linarith
    then show ?thesis unfolding round_half_even_def Let_def by auto
  qed
qed

lemma hundredths_order:
  assumes "0 \<le> m" "m \<le> 100" "0 \<le> k" "k \<le> 100"
  shows "(f64 (of_int m / 100) \<le> f64 (of_int k / 100)) = (m \<le> k)"
proof -
  have M: "of_int m / 100 - 1 / 100000 \<le> f64 (of_int m / 100)"
    "f64 (of_int m / 100) \<le> of_int m / 100 + 1 / 100000"
    using f64_within [of "of_int m / 100"] assms(1,2) by simp_all
  have K: "of_int k / 100 - 1 / 100000 \<le> f64 (of_int k / 100)"
    "f64 (of_int k / 100) \<le> of_int k / 100 + 1 / 100000"
    using f64_within [of "of_int k / 100"] assms(3,4) by simp_all
  show ?thesis
  proof (cases "m = k")
    case True
    then show ?thesis by simp
  next
    case False
    show ?thesis
    proof (cases "m < k")
      case True
      then have "m + 1 \<le> k" by simp
      then have "(of_int m :: rat) + 1 \<le> of_int k" by (metis of_int_1 of_int_add of_int_le_iff)
      then have "(of_int m :: rat) / 100 + 1 / 100 \<le> of_int k / 100" by simp
      then show ?thesis using M K True by simp
    next
      case nl: False
      then have "k + 1 \<le> m" using False by simp
      then have "(of_int k :: rat) + 1 \<le> of_int m" by (metis of_int_1 of_int_add of_int_le_iff)
      then have "(of_int k :: rat) / 100 + 1 / 100 \<le> of_int m / 100" by simp
      then show ?thesis using M K nl by simp
    qed
  qed
qed

lemma ritual_unit_f64:
  "0 \<le> score (score_ritual_consistency_f64 ts) \<and> score (score_ritual_consistency_f64 ts) \<le> 1"
proof (cases ts)
  case Nil
  then show ?thesis by (simp add: score_ritual_consistency_f64_def)
next
  case (Cons t rest)
  show ?thesis
    unfolding score_ritual_consistency_f64_def Let_def case_prod_beta Cons list.case
    by (simp only: principle_score.select_convs) (rule clamp_unit)
qed

lemma emotion_unit_f64:
  "0 \<le> score (score_emotional_validation_f64 ts all_ts) \<and>
   score (score_emotional_validation_f64 ts all_ts) \<le> 1"
  unfolding score_emotional_validation_f64_def Let_def case_prod_beta
  by (simp only: principle_score.select_convs) (rule clamp_unit)

lemma pressure_unit_f64:
  "0 \<le> score (score_no_pressure_f64 ts) \<and> score (score_no_pressure_f64 ts) \<le> 1"
  unfolding score_no_pressure_f64_def Let_def case_prod_beta
  by (simp only: principle_score.select_convs) (rule clamp_unit)

lemma brevity_unit_f64:
  "0 \<le> score (score_brevity_structure_f64 ts) \<and> score (score_brevity_structure_f64 ts) \<le> 1"
proof (cases "ts = []")
  case True
  then show ?thesis by (simp add: score_brevity_structure_f64_def)
next
  case False
  show ?thesis
    unfolding score_brevity_structure_f64_def Let_def case_prod_beta if_not_P [OF False]
    by (simp only: principle_score.select_convs) (rule clamp_unit)
qed

lemma f64_half: "f64 (1 / 2) = 1 / 2"
  by code_simp

lemma score_principle_unit_f64:
  "0 \<le> score (score_principle_f64 turns p stage) \<and>
   score (score_principle_f64 turns p stage) \<le> 1"
  unfolding score_principle_f64_def Let_def
  using ritual_unit_f64 emotion_unit_f64 pressure_unit_f64 brevity_unit_f64
  by (simp add: f64_half)

lemma calculate_overall_score_f64_principles:
  "calculate_overall_score_f64
     [(''ritual_over_stimulation'', a), (''emotion_over_accuracy'', b),
      (''presence_over_performance'', c), (''short_steady_repeatable'', d)] =
   Inr (round_f64 (weighted_sum_f64 (score a) (score b) (score c) (score d)) 2)"
  by (simp add: calculate_overall_score_f64_def PRINCIPLES_def weighted_sum_f64_def)

lemma principle_scores_list_f64:
  "map (\<lambda>(principle_key, principle).
          (principle_key, score_principle_f64 turns principle_key stage)) PRINCIPLES =
   scores_of_f64 turns stage"
  by (simp add: PRINCIPLES_def)

lemma analyze_turns_f64_report:
  "\<exists>r. analyze_turns_f64 turns transcript stage = Inr r \<and>
       principle_scores r = scores_of_f64 turns stage \<and>
       overall_score r =
         round_f64 (weighted_sum_f64
           (score (score_principle_f64 turns ''ritual_over_stimulation'' stage))
           (score (score_principle_f64 turns ''emotion_over_accuracy'' stage))
           (score (score_principle_f64 turns ''presence_over_performance'' stage))
           (score (score_principle_f64 turns ''short_steady_repeatable'' stage))) 2 \<and>
       grade r = score_to_grade_f64 (overall_score r)"
  unfolding analyze_turns_f64_def principle_scores_list_f64 Let_def
  by (simp add: calculate_overall_score_f64_principles)

lemma round_f64_hundredths:
  assumes "0 \<le> t" "t \<le> 1 + 12 / 100000"
  shows "\<exists>n::int. 0 \<le> n \<and> n \<le> 100 \<and> round_f64 t 2 = f64 (of_int n / 100) \<and>
           \<bar>of_int n / 100 - t\<bar> \<le> 1 / 200"
proof -
  define n where "n = round_half_even (t * 100)"
  have lo: "0 \<le> n" unfolding n_def using assms(1) by (intro round_half_even_lower) simp
  have "t * 100 < of_int 100 + 1 / 2" using assms(2) by simp
  then have hi: "n \<le> 100" unfolding n_def by (rule round_half_even_below)
  have eq: "round_f64 t 2 = f64 (of_int n / 100)"
    by (simp add: round_f64_def py_round_def n_def)
  have "\<bar>of_int n - t * 100\<bar> \<le> 1 / 2" unfolding n_def by (rule round_half_even_near)
  then have nr: "\<bar>of_int n / 100 - t\<bar> \<le> 1 / 200" by (simp add: abs_le_iff field_simps)
  show ?thesis using lo hi eq nr by blast
qed

lemma f64_hundredths_unit:
  assumes "0 \<le> n" "n \<le> 100"
  shows "0 \<le> f64 (of_int n / 100) \<and> f64 (of_int n / 100) \<le> 1"
proof (cases "n = 100")
  case True
  have "f64 1 = 1" by code_simp
  then show ?thesis using True by simp
next
  case False
  then have "n \<le> 99" using assms(2) by simp
  then have "(of_int n :: rat) \<le> 99" by (metis of_int_le_iff of_int_numeral)
  then have "(of_int n :: rat) / 100 \<le> 99 / 100" by simp
  then show ?thesis using f64_within [of "of_int n / 100"] assms(1) by simp
qed

lemma grade_by_hundredths:
  assumes "0 \<le> n" "n \<le> 100"
  shows "(score_to_grade_f64 (f64 (of_int n / 100)) = ''A'') = (90 \<le> n) \<and>
         (score_to_grade_f64 (f64 (of_int n / 100)) = ''B'') = (80 \<le> n \<and> n < 90) \<and>
         (score_to_grade_f64 (f64 (of_int n / 100)) = ''C'') = (70 \<le> n \<and> n < 80) \<and>
         (score_to_grade_f64 (f64 (of_int n / 100)) = ''D'') = (60 \<le> n \<and> n < 70) \<and>
         (score_to_grade_f64 (f64 (of_int n / 100)) = ''F'') = (n < 60)"
proof -
  have t: "(f64 (90 / 100) \<le> f64 (of_int n / 100)) = (90 \<le> n)"
    "(f64 (80 / 100) \<le> f64 (of_int n / 100)) = (80 \<le> n)"
    "(f64 (70 / 100) \<le> f64 (of_int n / 100)) = (70 \<le> n)"
    "(f64 (60 / 100) \<le> f64 (of_int n / 100)) = (60 \<le> n)"
    using hundredths_order [of 90 n] hundredths_order [of 80 n]
      hundredths_order [of 70 n] hundredths_order [of 60 n] assms by simp_all
  show ?thesis unfolding score_to_grade_f64_def t by auto
qed

lemma grade_thresholds_f64:
  "(score_to_grade_f64 s = ''A'') = (f64 (90 / 100) \<le> s) \<and>
   (score_to_grade_f64 s = ''B'') = (f64 (80 / 100) \<le> s \<and> s < f64 (90 / 100)) \<and>
   (score_to_grade_f64 s = ''C'') = (f64 (70 / 100) \<le> s \<and> s < f64 (80 / 100)) \<and>
   (score_to_grade_f64 s = ''D'') = (f64 (60 / 100) \<le> s \<and> s < f64 (70 / 100)) \<and>
   (score_to_grade_f64 s = ''F'') = (s < f64 (60 / 100))"
proof -
  have o: "f64 (60 / 100) \<le> f64 (70 / 100)" "f64 (70 / 100) \<le> f64 (80 / 100)"
    "f64 (80 / 100) \<le> f64 (90 / 100)"
    using hundredths_order [of 60 70] hundredths_order [of 70 80] hundredths_order [of 80 90]
    by simp_all
  show ?thesis unfolding score_to_grade_f64_def using o by auto
qed

lemma analyze_conversation_f64_parsed:
  "parse_conversation transcript cg pt = Inr turns \<Longrightarrow>
   analyze_conversation_f64 transcript cg pt stage = analyze_turns_f64 turns transcript stage"
  by (simp add: analyze_conversation_f64_def)

text \<open>
  C4: for every transcript the analysis, computed in binary64 arithmetic as the program
  computes it, returns a report; with \<open>turns\<close> the parsed transcript, its principle
  scores are those of the four principles in the order of the configuration (weights 0.25,
  0.30, 0.25, 0.20), and its overall score is \<open>round(total, 2)\<close> of the float total of
  score times weight. That score is the float of a whole number \<open>n\<close> of hundredths
  between 0 and 100, \<open>n / 100\<close> is within half a hundredth of the float total, and the
  float total is within 0.00012 of the exact sum of score times weight. The overall score
  lies between 0 and 1, and the grade is A exactly from 0.90, B from 0.80 up to 0.90, C
  from 0.70, D from 0.60 and F below, both as comparisons of floats and in hundredths.
  For a visit with greeting, structure, closing and two gentle invitations the four scores
  are 0.9999999999999999, 0.6499999999999999, 1.0 and 0.9999999999999999, the float total
  is 0.8949999999999999, the overall score 0.89 and the grade B.
\<close>

theorem overall_score_and_grade_f64:
  "(\<exists>turns r n.
     parse_conversation transcript caregiver_name patient_name = Inr turns \<and>
     analyze_conversation_f64 transcript caregiver_name patient_name stage = Inr r \<and>
     map (\<lambda>(k, p). (k, weight p)) PRINCIPLES =
       [(''ritual_over_stimulation'', 25 / 100), (''emotion_over_accuracy'', 30 / 100),
        (''presence_over_performance'', 25 / 100), (''short_steady_repeatable'', 20 / 100)] \<and>
     principle_scores r = scores_of_f64 turns stage \<and>
     overall_score r =
       round_f64 (weighted_sum_f64
         (score (score_principle_f64 turns ''ritual_over_stimulation'' stage))
         (score (score_principle_f64 turns ''emotion_over_accuracy'' stage))
         (score (score_principle_f64 turns ''presence_over_performance'' stage))
         (score (score_principle_f64 turns ''short_steady_repeatable'' stage))) 2 \<and>
     0 \<le> n \<and> n \<le> 100 \<and> overall_score r = f64 (of_int n / 100) \<and>
     \<bar>of_int n / 100 - weighted_sum_f64
         (score (score_principle_f64 turns ''ritual_over_stimulation'' stage))
         (score (score_principle_f64 turns ''emotion_over_accuracy'' stage))
         (score (score_principle_f64 turns ''presence_over_performance'' stage))
         (score (score_principle_f64 turns ''short_steady_repeatable'' stage))\<bar> \<le> 1 / 200 \<and>
     \<bar>weighted_sum_f64
         (score (score_principle_f64 turns ''ritual_over_stimulation'' stage))
         (score (score_principle_f64 turns ''emotion_over_accuracy'' stage))
         (score (score_principle_f64 turns ''presence_over_performance'' stage))
         (score (score_principle_f64 turns ''short_steady_repeatable'' stage)) -
       weighted_sum
         (score (score_principle_f64 turns ''ritual_over_stimulation'' stage))
         (score (score_principle_f64 turns ''emotion_over_accuracy'' stage))
         (score (score_principle_f64 turns ''presence_over_performance'' stage))
         (score (score_principle_f64 turns ''short_steady_repeatable'' stage))\<bar>
       \<le> 12 / 100000 \<and>
     0 \<le> overall_score r \<and> overall_score r \<le> 1 \<and>
     (grade r = ''A'') = (f64 (90 / 100) \<le> overall_score r) \<and>
     (grade r = ''B'') =
       (f64 (80 / 100) \<le> overall_score r \<and> overall_score r < f64 (90 / 100)) \<and>
     (grade r = ''C'') =
       (f64 (70 / 100) \<le> overall_score r \<and> overall_score r < f64 (80 / 100)) \<and>
     (grade r = ''D'') =
       (f64 (60 / 100) \<le> overall_score r \<and> overall_score r < f64 (70 / 100)) \<and>
     (grade r = ''F'') = (overall_score r < f64 (60 / 100)) \<and>
     (grade r = ''A'') = (90 \<le> n) \<and>
     (grade r = ''B'') = (80 \<le> n \<and> n < 90) \<and>
     (grade r = ''C'') = (70 \<le> n \<and> n < 80) \<and>
     (grade r = ''D'') = (60 \<le> n \<and> n < 70) \<and>
     (grade r = ''F'') = (n < 60)) \<and>
   (\<exists>r. analyze_conversation_f64 steady_transcript ''Alice'' ''Mom'' ''moderate'' = Inr r \<and>
      map (\<lambda>(k, s). score s) (principle_scores r) =
        [9007199254740991 / 9007199254740992, 1463669878895411 / 2251799813685248, 1,
         9007199254740991 / 9007199254740992] \<and>
      overall_score r = f64 (89 / 100) \<and> grade r = ''B'')"
proof -
  define turns where "turns = spec_turns transcript caregiver_name patient_name"
  define s1 where "s1 = score (score_principle_f64 turns ''ritual_over_stimulation'' stage)"
  define s2 where "s2 = score (score_principle_f64 turns ''emotion_over_accuracy'' stage)"
  define s3 where "s3 = score (score_principle_f64 turns ''presence_over_performance'' stage)"
  define s4 where "s4 = score (score_principle_f64 turns ''short_steady_repeatable'' stage)"
  have u: "0 \<le> s1 \<and> s1 \<le> 1" "0 \<le> s2 \<and> s2 \<le> 1" "0 \<le> s3 \<and> s3 \<le> 1" "0 \<le> s4 \<and> s4 \<le> 1"
    unfolding s1_def s2_def s3_def s4_def by (rule score_principle_unit_f64)+
  have p: "parse_conversation transcript caregiver_name patient_name = Inr turns"
    unfolding turns_def by (rule parse_conversation_spec)
  obtain r where r: "analyze_turns_f64 turns transcript stage = Inr r"
    and ps: "principle_scores r = scores_of_f64 turns stage"
    and ov: "overall_score r = round_f64 (weighted_sum_f64 s1 s2 s3 s4) 2"
    and gr: "grade r = score_to_grade_f64 (overall_score r)"
    unfolding s1_def s2_def s3_def s4_def
    using analyze_turns_f64_report [of turns transcript stage] by blast
  have a: "analyze_conversation_f64 transcript caregiver_name patient_name stage = Inr r"
    using analyze_conversation_f64_parsed [OF p] r by simp
  have w: "map (\<lambda>(k, p). (k, weight p)) PRINCIPLES =
       [(''ritual_over_stimulation'', 25 / 100), (''emotion_over_accuracy'', 30 / 100),
        (''presence_over_performance'', 25 / 100), (''short_steady_repeatable'', 20 / 100)]"
    by (simp add: PRINCIPLES_def)
  have tw: "weighted_sum s1 s2 s3 s4 - 12 / 100000 \<le> weighted_sum_f64 s1 s2 s3 s4"
    "weighted_sum_f64 s1 s2 s3 s4 \<le> weighted_sum s1 s2 s3 s4 + 12 / 100000"
    "0 \<le> weighted_sum_f64 s1 s2 s3 s4"
    using total_within [OF u] by blast+
  have wu: "weighted_sum s1 s2 s3 s4 \<le> 1"
    using weighted_sum_unit [OF u] by blast
  have cl: "\<bar>weighted_sum_f64 s1 s2 s3 s4 - weighted_sum s1 s2 s3 s4\<bar> \<le> 12 / 100000"
    using tw(1,2) by linarith
  have "weighted_sum_f64 s1 s2 s3 s4 \<le> 1 + 12 / 100000" using tw(2) wu by linarith
  then obtain n :: int where n: "0 \<le> n" "n \<le> 100"
    and on: "round_f64 (weighted_sum_f64 s1 s2 s3 s4) 2 = f64 (of_int n / 100)"
    and nr: "\<bar>of_int n / 100 - weighted_sum_f64 s1 s2 s3 s4\<bar> \<le> 1 / 200"
    using round_f64_hundredths [OF tw(3)] by blast
  have o: "overall_score r = f64 (of_int n / 100)" using ov on by simp
  have ou: "0 \<le> overall_score r" "overall_score r \<le> 1"
    unfolding o using f64_hundredths_unit [OF n] by blast+
  have g1: "(grade r = ''A'') = (f64 (90 / 100) \<le> overall_score r)"
    "(grade r = ''B'') =
       (f64 (80 / 100) \<le> overall_score r \<and> overall_score r < f64 (90 / 100))"
    "(grade r = ''C'') =
       (f64 (70 / 100) \<le> overall_score r \<and> overall_score r < f64 (80 / 100))"
    "(grade r = ''D'') =
       (f64 (60 / 100) \<le> overall_score r \<and> overall_score r < f64 (70 / 100))"
    "(grade r = ''F'') = (overall_score r < f64 (60 / 100))"
    unfolding gr using grade_thresholds_f64 [of "overall_score r"] by blast+
  have g2: "(grade r = ''A'') = (90 \<le> n)"
    "(grade r = ''B'') = (80 \<le> n \<and> n < 90)"
    "(grade r = ''C'') = (70 \<le> n \<and> n < 80)"
    "(grade r = ''D'') = (60 \<le> n \<and> n < 70)"
    "(grade r = ''F'') = (n < 60)"
    unfolding gr o using grade_by_hundredths [OF n] by blast+
  have general: "\<exists>turns r n.
     parse_conversation transcript caregiver_name patient_name = Inr turns \<and>
     analyze_conversation_f64 transcript caregiver_name patient_name stage = Inr r \<and>
     map (\<lambda>(k, p). (k, weight p)) PRINCIPLES =
       [(''ritual_over_stimulation'', 25 / 100), (''emotion_over_accuracy'', 30 / 100),
        (''presence_over_performance'', 25 / 100), (''short_steady_repeatable'', 20 / 100)] \<and>
     principle_scores r = scores_of_f64 turns stage \<and>
     overall_score r =
       round_f64 (weighted_sum_f64
         (score (score_principle_f64 turns ''ritual_over_stimulation'' stage))
         (score (score_principle_f64 turns ''emotion_over_accuracy'' stage))
         (score (score_principle_f64 turns ''presence_over_performance'' stage))
         (score (score_principle_f64 turns ''short_steady_repeatable'' stage))) 2 \<and>
     0 \<le> n \<and> n \<le> 100 \<and> overall_score r = f64 (of_int n / 100) \<and>
     \<bar>of_int n / 100 - weighted_sum_f64
         (score (score_principle_f64 turns ''ritual_over_stimulation'' stage))
         (score (score_principle_f64 turns ''emotion_over_accuracy'' stage))
         (score (score_principle_f64 turns ''presence_over_performance'' stage))
         (score (score_principle_f64 turns ''short_steady_repeatable'' stage))\<bar> \<le> 1 / 200 \<and>
     \<bar>weighted_sum_f64
         (score (score_principle_f64 turns ''ritual_over_stimulation'' stage))
         (score (score_principle_f64 turns ''emotion_over_accuracy'' stage))
         (score (score_principle_f64 turns ''presence_over_performance'' stage))
         (score (score_principle_f64 turns ''short_steady_repeatable'' stage)) -
       weighted_sum
         (score (score_principle_f64 turns ''ritual_over_stimulation'' stage))
         (score (score_principle_f64 turns ''emotion_over_accuracy'' stage))
         (score (score_principle_f64 turns ''presence_over_performance'' stage))
         (score (score_principle_f64 turns ''short_steady_repeatable'' stage))\<bar>
       \<le> 12 / 100000 \<and>
     0 \<le> overall_score r \<and> overall_score r \<le> 1 \<and>
     (grade r = ''A'') = (f64 (90 / 100) \<le> overall_score r) \<and>
     (grade r = ''B'') =
       (f64 (80 / 100) \<le> overall_score r \<and> overall_score r < f64 (90 / 100)) \<and>
     (grade r = ''C'') =
       (f64 (70 / 100) \<le> overall_score r \<and> overall_score r < f64 (80 / 100)) \<and>
     (grade r = ''D'') =
       (f64 (60 / 100) \<le> overall_score r \<and> overall_score r < f64 (70 / 100)) \<and>
     (grade r = ''F'') = (overall_score r < f64 (60 / 100)) \<and>
     (grade r = ''A'') = (90 \<le> n) \<and>
     (grade r = ''B'') = (80 \<le> n \<and> n < 90) \<and>
     (grade r = ''C'') = (70 \<le> n \<and> n < 80) \<and>
     (grade r = ''D'') = (60 \<le> n \<and> n < 70) \<and>
     (grade r = ''F'') = (n < 60)"
    apply (rule exI [of _ turns])
    apply (rule exI [of _ r])
    apply (rule exI [of _ n])
    using p a w ps ov n o nr cl ou g1 g2
    unfolding s1_def s2_def s3_def s4_def
    by (intro conjI) assumption+
  define ex where "ex =
      [make_turn Caregiver ''Good morning, Mom. It's time for our visit.'',
       make_turn Caregiver ''We can sit here. Take your time.'',
       make_turn Caregiver ''It's okay to rest. Thank you, see you tomorrow.'']"
  have ep: "parse_conversation steady_transcript ''Alice'' ''Mom'' = Inr ex"
    unfolding ex_def by code_simp
  have sc1: "score (score_principle_f64 ex ''ritual_over_stimulation'' ''moderate'') =
      9007199254740991 / 9007199254740992"
    unfolding ex_def by code_simp
  have sc2: "score (score_principle_f64 ex ''emotion_over_accuracy'' ''moderate'') =
      1463669878895411 / 2251799813685248"
    unfolding ex_def by code_simp
  have sc3: "score (score_principle_f64 ex ''presence_over_performance'' ''moderate'') = 1"
    unfolding ex_def by code_simp
  have sc4: "score (score_principle_f64 ex ''short_steady_repeatable'' ''moderate'') =
      9007199254740991 / 9007199254740992"
    unfolding ex_def by code_simp
  have ws: "weighted_sum_f64 (9007199254740991 / 9007199254740992)
      (1463669878895411 / 2251799813685248) 1 (9007199254740991 / 9007199254740992) =
      8061443332993187 / 9007199254740992"
    by code_simp
  have rd: "round_f64 (8061443332993187 / 9007199254740992) 2 = f64 (89 / 100)"
    by code_simp
  have e3: "score_to_grade_f64 (f64 (89 / 100)) = ''B''" by code_simp
  obtain q where q: "analyze_turns_f64 ex steady_transcript ''moderate'' = Inr q"
    and qps: "principle_scores q = scores_of_f64 ex ''moderate''"
    and qov: "overall_score q = round_f64 (weighted_sum_f64
         (score (score_principle_f64 ex ''ritual_over_stimulation'' ''moderate''))
         (score (score_principle_f64 ex ''emotion_over_accuracy'' ''moderate''))
         (score (score_principle_f64 ex ''presence_over_performance'' ''moderate''))
         (score (score_principle_f64 ex ''short_steady_repeatable'' ''moderate''))) 2"
    and qgr: "grade q = score_to_grade_f64 (overall_score q)"
    using analyze_turns_f64_report [of ex steady_transcript "''moderate''"] by blast
  have x1: "analyze_conversation_f64 steady_transcript ''Alice'' ''Mom'' ''moderate'' = Inr q"
    using analyze_conversation_f64_parsed [OF ep] q by simp
  have x2: "map (\<lambda>(k, s). score s) (principle_scores q) =
        [9007199254740991 / 9007199254740992, 1463669878895411 / 2251799813685248, 1,
         9007199254740991 / 9007199254740992]"
    unfolding qps by (simp only: list.map prod.case sc1 sc2 sc3 sc4)
  have x3: "overall_score q = f64 (89 / 100)"
    unfolding qov by (simp only: sc1 sc2 sc3 sc4 ws rd)
  have x4: "grade q = ''B''"
    unfolding qgr x3 by (rule e3)
  have example: "\<exists>r. analyze_conversation_f64 steady_transcript ''Alice'' ''Mom'' ''moderate'' = Inr r \<and>
      map (\<lambda>(k, s). score s) (principle_scores r) =
        [9007199254740991 / 9007199254740992, 1463669878895411 / 2251799813685248, 1,
         9007199254740991 / 9007199254740992] \<and>
      overall_score r = f64 (89 / 100) \<and> grade r = ''B''"
    apply (rule exI [of _ q])
    using x1 x2 x3 x4 by (intro conjI) assumption+
  show ?thesis using general example by (rule conjI)
qed

text \<open>The findings on single scores, again in binary64 arithmetic.\<close>

lemma f64_nonneg: "0 \<le> x \<Longrightarrow> 0 \<le> f64 x"
proof (cases "x = 0")
  case True
  then show ?thesis by (simp add: f64_def)
next
  case False
  assume "0 \<le> x"
  then have p: "0 < x" using False by simp
  have "0 \<le> round_half_even (x / ulp x)"
    using p ulp_pos [OF p] by (intro round_half_even_lower) simp
  then show ?thesis using p ulp_pos [OF p] by (simp add: f64_def)
qed

lemma f64_lower: "0 \<le> x \<Longrightarrow> x * (99 / 100) \<le> f64 x"
proof (cases "x = 0")
  case True
  then show ?thesis by (simp add: f64_def)
next
  case False
  assume "0 \<le> x"
  then have p: "0 < x" using False by simp
  have "ulp x * 2 ^ 52 \<le> x" using p by (rule ulp_le)
  then have "ulp x / 2 \<le> x / 100" using p by simp
  then have "\<bar>f64 x - x\<bar> \<le> x / 100" using f64_pos_error [OF p] by simp
  then show ?thesis by linarith
qed

lemma int_times_lower:
  assumes "0 < n" "l \<le> c" "0 \<le> l"
  shows "l * (98 / 100) \<le> int_times n c"
proof -
  have "(1::rat) \<le> of_nat n" using assms(1) by simp
  then have "(1::rat) * (99 / 100) \<le> of_nat n * (99 / 100)" by simp
  also have "\<dots> \<le> f64 (of_nat n)" by (rule f64_lower) simp
  finally have a: "99 / 100 \<le> f64 (of_nat n)" by simp
  have "(99 / 100) * l \<le> f64 (of_nat n) * c"
    using a assms(2,3) by (intro mult_mono) simp_all
  moreover have "0 \<le> f64 (of_nat n) * c"
    using a assms(2,3) by simp
  then have "f64 (of_nat n) * c * (99 / 100) \<le> f64 (f64 (of_nat n) * c)"
    by (rule f64_lower)
  ultimately show ?thesis unfolding int_times_def fmul_def using assms(3) by linarith
qed

lemma int_times_nonneg: "0 \<le> c \<Longrightarrow> 0 \<le> int_times n c"
  unfolding int_times_def fmul_def
  by (intro f64_nonneg mult_nonneg_nonneg) simp_all

text \<open>
  The presence score in binary64 arithmetic: at most 0.81 once a caregiver turn matches a
  testing pattern, at least 0.89 when none does.
\<close>

lemma presence_f64_with_testing:
  assumes "0 < count_turns is_testing_turn cts"
  shows "score (score_no_pressure_f64 cts) \<le> 81 / 100"
proof -
  define c where "c = count_turns is_testing_turn cts"
  define k where "k = count_turns (\<lambda>t. any_in invitation_phrases (text_lower t)) cts"
  define m where "m = min (f64 (4 / 10)) (int_times c (f64 (15 / 100)))"
  define s1 where "s1 = fsub (f64 (8 / 10)) m"
  define inv where "inv = min (f64 (15 / 100)) (int_times k (f64 (5 / 100)))"
  have c8: "8 / 10 - 1 / 100000 \<le> f64 (8 / 10)" "f64 (8 / 10) \<le> 8 / 10 + 1 / 100000"
    using f64_within [of "8 / 10"] by simp_all
  have c4: "4 / 10 - 1 / 100000 \<le> f64 (4 / 10)" "f64 (4 / 10) \<le> 4 / 10 + 1 / 100000"
    using f64_within [of "4 / 10"] by simp_all
  have c15: "15 / 100 - 1 / 100000 \<le> f64 (15 / 100)" "f64 (15 / 100) \<le> 15 / 100 + 1 / 100000"
    "0 \<le> f64 (15 / 100)"
    using f64_within [of "15 / 100"] by simp_all
  have "(149 / 1000) * (98 / 100) \<le> int_times c (f64 (15 / 100))"
    using assms c15(1) unfolding c_def by (intro int_times_lower) simp_all
  then have ml: "146 / 1000 \<le> m" unfolding m_def using c4(1) by simp
  have mu: "m \<le> 4 / 10 + 1 / 100000" unfolding m_def using c4(2) by simp
  have "0 \<le> f64 (8 / 10) - m" "f64 (8 / 10) - m \<le> 2" using c8 ml mu by simp_all
  then have s1: "0 \<le> s1" "s1 \<le> f64 (8 / 10) - m + 1 / 100000"
    unfolding s1_def fsub_def using f64_within [of "f64 (8 / 10) - m"] by simp_all
  have s1u: "s1 \<le> 655 / 1000" using s1(2) c8(2) ml by simp
  have iv: "0 \<le> inv" "inv \<le> 15 / 100 + 1 / 100000"
    unfolding inv_def using c15 int_times_nonneg [of "f64 (5 / 100)" k]
      f64_nonneg [of "5 / 100"] by simp_all
  have "fadd s1 inv \<le> s1 + inv + 1 / 100000"
    using sum_within [of s1 inv] s1(1) s1u iv by simp
  then have s2: "fadd s1 inv \<le> 81 / 100" using s1u iv(2) by simp
  have "score (score_no_pressure_f64 cts) =
      min 1 (max 0 (if 0 < k then fadd s1 inv else s1))"
    using assms unfolding score_no_pressure_f64_def Let_def s1_def m_def inv_def c_def k_def
    by (simp add: case_prod_beta)
  then show ?thesis using s2 s1u by (auto simp: min_def max_def)
qed

lemma presence_f64_without_testing:
  assumes "count_turns is_testing_turn cts = 0"
  shows "89 / 100 \<le> score (score_no_pressure_f64 cts)"
proof -
  define k where "k = count_turns (\<lambda>t. any_in invitation_phrases (text_lower t)) cts"
  define s1 where "s1 = fadd (f64 (8 / 10)) (f64 (1 / 10))"
  define inv where "inv = min (f64 (15 / 100)) (int_times k (f64 (5 / 100)))"
  have s1v: "s1 = 8106479329266893 / 9007199254740992" unfolding s1_def by code_simp
  have c15: "f64 (15 / 100) \<le> 15 / 100 + 1 / 100000" "0 \<le> f64 (15 / 100)"
    using f64_within [of "15 / 100"] by simp_all
  have iv: "0 \<le> inv" "inv \<le> 15 / 100 + 1 / 100000"
    unfolding inv_def using c15 int_times_nonneg [of "f64 (5 / 100)" k]
      f64_nonneg [of "5 / 100"] by simp_all
  have "s1 + inv - 1 / 100000 \<le> fadd s1 inv"
    using sum_within [of s1 inv] iv unfolding s1v by simp
  then have s2: "89 / 100 \<le> fadd s1 inv" using iv(1) unfolding s1v by simp
  have s1l: "89 / 100 \<le> s1" unfolding s1v by simp
  have "score (score_no_pressure_f64 cts) =
      min 1 (max 0 (if 0 < k then fadd s1 inv else s1))"
    using assms unfolding score_no_pressure_f64_def Let_def s1_def inv_def k_def
    by (simp add: case_prod_beta)
  then show ?thesis using s2 s1l by (auto simp: min_def max_def)
qed

text \<open>
  Without a caregiver turn the binary64 scores are 0, 0.6499999999999999, 0.9 and 0, the
  overall score is the float 0.42 and the grade F.
\<close>

lemma no_caregiver_turns_overall_f64:
  assumes "parse_conversation transcript caregiver_name patient_name = Inr turns"
    and "caregiver_turns_of turns = []"
  shows "\<exists>r. analyze_conversation_f64 transcript caregiver_name patient_name stage = Inr r \<and>
     overall_score r = f64 (42 / 100) \<and> grade r = ''F'' \<and>
     map (\<lambda>(k, s). (k, score s)) (principle_scores r) =
       [(''ritual_over_stimulation'', 0),
        (''emotion_over_accuracy'', 1463669878895411 / 2251799813685248),
        (''presence_over_performance'', 8106479329266893 / 9007199254740992),
        (''short_steady_repeatable'', 0)]"
proof -
  have v1: "score (score_ritual_consistency_f64 []) = 0" by code_simp
  have v2: "score (score_emotional_validation_f64 [] turns) =
      1463669878895411 / 2251799813685248" by code_simp
  have v3: "score (score_no_pressure_f64 []) = 8106479329266893 / 9007199254740992"
    by code_simp
  have v4: "score (score_brevity_structure_f64 []) = 0" by code_simp
  have s1: "score (score_principle_f64 turns ''ritual_over_stimulation'' stage) = 0"
    unfolding score_principle_f64_def Let_def assms(2) using v1 by simp
  have s2: "score (score_principle_f64 turns ''emotion_over_accuracy'' stage) =
      1463669878895411 / 2251799813685248"
    unfolding score_principle_f64_def Let_def assms(2) using v2 by simp
  have s3: "score (score_principle_f64 turns ''presence_over_performance'' stage) =
      8106479329266893 / 9007199254740992"
    unfolding score_principle_f64_def Let_def assms(2) using v3 by simp
  have s4: "score (score_principle_f64 turns ''short_steady_repeatable'' stage) = 0"
    unfolding score_principle_f64_def Let_def assms(2) using v4 by simp
  have rd: "round_f64 (weighted_sum_f64 0 (1463669878895411 / 2251799813685248)
      (8106479329266893 / 9007199254740992) 0) 2 = f64 (42 / 100)"
    by code_simp
  have gr: "score_to_grade_f64 (f64 (42 / 100)) = ''F''" by code_simp
  obtain r where r: "analyze_turns_f64 turns transcript stage = Inr r"
    and ps: "principle_scores r = scores_of_f64 turns stage"
    and ov: "overall_score r = round_f64 (weighted_sum_f64
         (score (score_principle_f64 turns ''ritual_over_stimulation'' stage))
         (score (score_principle_f64 turns ''emotion_over_accuracy'' stage))
         (score (score_principle_f64 turns ''presence_over_performance'' stage))
         (score (score_principle_f64 turns ''short_steady_repeatable'' stage))) 2"
    and g: "grade r = score_to_grade_f64 (overall_score r)"
    using analyze_turns_f64_report [of turns transcript stage] by blast
  have a: "analyze_conversation_f64 transcript caregiver_name patient_name stage = Inr r"
    using analyze_conversation_f64_parsed [OF assms(1)] r by simp
  have b: "overall_score r = f64 (42 / 100)"
    unfolding ov by (simp only: s1 s2 s3 s4 rd)
  have c: "grade r = ''F''" unfolding g b by (rule gr)
  have d: "map (\<lambda>(k, s). (k, score s)) (principle_scores r) =
       [(''ritual_over_stimulation'', 0),
        (''emotion_over_accuracy'', 1463669878895411 / 2251799813685248),
        (''presence_over_performance'', 8106479329266893 / 9007199254740992),
        (''short_steady_repeatable'', 0)]"
    unfolding ps by (simp only: list.map prod.case s1 s2 s3 s4)
  show ?thesis
    apply (rule exI [of _ r])
    using a b c d by (intro conjI) assumption+
qed

section \<open>Properties of the violation detector and the recommendations\<close>

lemma memory_testing_flagged:
  "t \<in> set ts \<Longrightarrow>
   any_in [''do you remember'', ''try to remember'', ''don't you remember''] (text_lower t) \<Longrightarrow>
   list_ex (\<lambda>v. vtype v = ''memory_testing'' \<and> severity v = High \<and>
                 excerpt v = take 100 (turn_text t)) (violations_from i ts)"
proof (induction ts arbitrary: i)
  case Nil
  then show ?case by simp
next
  case (Cons u us)
  show ?case
  proof (cases "t = u")
    case True
    then show ?thesis using Cons.prems(2) by (simp add: turn_violations_def)
  next
    case False
    then have "t \<in> set us" using Cons.prems(1) by simp
    then have "list_ex (\<lambda>v. vtype v = ''memory_testing'' \<and> severity v = High \<and>
                 excerpt v = take 100 (turn_text t)) (violations_from (Suc i) us)"
      using Cons.IH Cons.prems(2) by blast
    then show ?thesis by simp
  qed
qed

lemma critical_recommendation_first:
  assumes "list_ex (\<lambda>v. severity v = High) vs"
  shows "\<exists>rest. generate_recommendations turns scores vs stage = stop_testing_memory # rest"
proof -
  have "filter (\<lambda>v. severity v = High) vs \<noteq> []"
    using assms by (simp add: filter_empty_conv list_ex_iff)
  moreover have "vs \<noteq> []" using assms by auto
  ultimately show ?thesis by (simp add: generate_recommendations_def Let_def)
qed

lemma presence_with_testing:
  assumes "0 < count_turns is_testing_turn cts"
  shows "score (score_no_pressure cts) \<le> 8 / 10 \<and>
         hd (evidence (score_no_pressure cts)) = Asked_testing (count_turns is_testing_turn cts)"
proof -
  have "(1::rat) \<le> of_nat (count_turns is_testing_turn cts)" using assms by simp
  then have "(15 / 100 :: rat) \<le> of_nat (count_turns is_testing_turn cts) * (15 / 100)"
    by simp
  then have "(15 / 100 :: rat) \<le> min (4 / 10) (of_nat (count_turns is_testing_turn cts) * (15 / 100))"
    by simp
  then show ?thesis
    using assms unfolding score_no_pressure_def Let_def by (auto simp: min_def max_def)
qed

lemma presence_without_testing:
  assumes "count_turns is_testing_turn cts = 0"
  shows "9 / 10 \<le> score (score_no_pressure cts) \<and>
         hd (evidence (score_no_pressure cts)) = No_testing"
  using assms unfolding score_no_pressure_def Let_def by (auto simp: min_def max_def)

lemma count_turns_member: "t \<in> set ts \<Longrightarrow> P t \<Longrightarrow> 0 < count_turns P ts"
  by (auto simp: count_turns_def filter_empty_conv)

lemma count_turns_removed: "count_turns P (filter (\<lambda>u. \<not> P u) ts) = 0"
  by (simp add: count_turns_def)

text \<open>
  C9: when a caregiver turn of the parsed transcript has the text
  "Do you remember when we went fishing?", the report has a memory_testing violation of
  high severity quoting that text; the presence score is the one of \<open>_score_no_pressure\<close>
  on the caregiver turns, its first evidence is the testing finding and not the
  no-testing bonus, it is at most 0.8, and it is strictly below the score of the same
  caregiver turns without the testing ones (which is at least 0.9); and the first
  recommendation is "Stop Testing Memory" with priority immediate.
\<close>

theorem memory_testing_question:
  assumes "parse_conversation transcript caregiver_name patient_name = Inr turns"
    and "t \<in> set turns" and "speaker t = Caregiver" and "turn_text t = fishing_question"
  shows "\<exists>r. analyze_conversation transcript caregiver_name patient_name stage = Inr r \<and>
     list_ex (\<lambda>v. vtype v = ''memory_testing'' \<and> severity v = High \<and>
                   excerpt v = fishing_question) (violations r) \<and>
     map_of (principle_scores r) ''presence_over_performance'' =
       Some (score_no_pressure (caregiver_turns_of turns)) \<and>
     hd (evidence (score_no_pressure (caregiver_turns_of turns))) =
       Asked_testing (count_turns is_testing_turn (caregiver_turns_of turns)) \<and>
     0 < count_turns is_testing_turn (caregiver_turns_of turns) \<and>
     score (score_no_pressure (caregiver_turns_of turns)) \<le> 8 / 10 \<and>
     9 / 10 \<le> score (score_no_pressure
                (filter (\<lambda>u. \<not> is_testing_turn u) (caregiver_turns_of turns))) \<and>
     score (score_no_pressure (caregiver_turns_of turns)) <
       score (score_no_pressure
                (filter (\<lambda>u. \<not> is_testing_turn u) (caregiver_turns_of turns))) \<and>
     recommendations r \<noteq> [] \<and>
     hd (recommendations r) = stop_testing_memory \<and>
     title (hd (recommendations r)) = ''Stop Testing Memory'' \<and>
     priority (hd (recommendations r)) = ''immediate''"
proof -
  let ?cts = "caregiver_turns_of turns"
  have "turns = spec_turns transcript caregiver_name patient_name"
    using assms(1) parse_conversation_spec [of transcript caregiver_name patient_name] by simp
  then have tl: "text_lower t = lower fishing_question"
    using spec_turns_lower assms(2,4) by metis
  have mem: "t \<in> set ?cts"
    using assms(2,3) by (simp add: caregiver_turns_of_def)
  have "list_ex (\<lambda>pattern. re_search_word pattern (lower fishing_question)) testing_patterns"
    by code_simp
  then have test: "is_testing_turn t" by (simp add: is_testing_turn_def tl)
  have cnt: "0 < count_turns is_testing_turn ?cts"
    using count_turns_member [of t ?cts is_testing_turn] mem test by blast
  have phr: "any_in [''do you remember'', ''try to remember'', ''don't you remember'']
      (text_lower t)"
    unfolding tl by code_simp
  have tk: "take 100 (turn_text t) = fishing_question"
    unfolding assms(4) by (simp add: fishing_question_def)
  have vio: "list_ex (\<lambda>v. vtype v = ''memory_testing'' \<and> severity v = High \<and>
                   excerpt v = fishing_question) (detect_violations turns stage)"
    using memory_testing_flagged [OF mem phr, of 0] by (simp add: detect_violations_def tk)
  then have high: "list_ex (\<lambda>v. severity v = High) (detect_violations turns stage)"
    by (auto simp: list_ex_iff)
  obtain rest where rec: "generate_recommendations turns (scores_of turns stage)
      (detect_violations turns stage) stage = stop_testing_memory # rest"
    using critical_recommendation_first [OF high] by blast
  obtain r where r: "analyze_turns turns transcript stage = Inr r"
    and vr: "violations r = detect_violations turns stage"
    and psr: "principle_scores r = scores_of turns stage"
    and rr: "recommendations r = generate_recommendations turns (scores_of turns stage)
      (detect_violations turns stage) stage"
    using analyze_turns_report [of turns transcript stage] by simp
  have a: "analyze_conversation transcript caregiver_name patient_name stage = Inr r"
    using analyze_conversation_parsed [OF assms(1)] r by simp
  have b: "list_ex (\<lambda>v. vtype v = ''memory_testing'' \<and> severity v = High \<and>
                   excerpt v = fishing_question) (violations r)"
    using vio vr by simp
  have c: "map_of (principle_scores r) ''presence_over_performance'' =
       Some (score_no_pressure ?cts)"
    by (simp add: psr score_principle_def)
  have d: "hd (evidence (score_no_pressure ?cts)) =
       Asked_testing (count_turns is_testing_turn ?cts)"
    "score (score_no_pressure ?cts) \<le> 8 / 10"
    using presence_with_testing [OF cnt] by blast+
  have e: "9 / 10 \<le> score (score_no_pressure (filter (\<lambda>u. \<not> is_testing_turn u) ?cts))"
    using presence_without_testing [OF count_turns_removed] by blast
  have f: "score (score_no_pressure ?cts) <
       score (score_no_pressure (filter (\<lambda>u. \<not> is_testing_turn u) ?cts))"
    using d(2) e by linarith
  have g: "recommendations r \<noteq> []" "hd (recommendations r) = stop_testing_memory"
    using rr rec by simp_all
  have h: "title (hd (recommendations r)) = ''Stop Testing Memory''"
    "priority (hd (recommendations r)) = ''immediate''"
    unfolding g(2) by (simp_all add: stop_testing_memory_def)
  show ?thesis
    apply (rule exI [of _ r])
    using a b c d cnt e f g h by (intro conjI) assumption+
qed

theorem memory_testing_question_witness:
  "parse_conversation (''Alice: '' @ fishing_question @ ''\<newline>Mom: No.'') ''Alice'' ''Mom'' =
     Inr [make_turn Caregiver fishing_question, make_turn Patient ''No.''] \<and>
   make_turn Caregiver fishing_question \<in>
     set [make_turn Caregiver fishing_question, make_turn Patient ''No.''] \<and>
   speaker (make_turn Caregiver fishing_question) = Caregiver \<and>
   turn_text (make_turn Caregiver fishing_question) = fishing_question \<and>
   (\<exists>r. analyze_conversation (''Alice: '' @ fishing_question @ ''\<newline>Mom: No.'')
          ''Alice'' ''Mom'' ''moderate'' = Inr r \<and>
     list_ex (\<lambda>v. vtype v = ''memory_testing'' \<and> severity v = High \<and>
                   excerpt v = fishing_question) (violations r) \<and>
     hd (recommendations r) = stop_testing_memory)"
proof -
  have p: "parse_conversation (''Alice: '' @ fishing_question @ ''\<newline>Mom: No.'') ''Alice'' ''Mom'' =
     Inr [make_turn Caregiver fishing_question, make_turn Patient ''No.'']"
    by code_simp
  have m: "make_turn Caregiver fishing_question \<in>
     set [make_turn Caregiver fishing_question, make_turn Patient ''No.'']"
    by simp
  have s: "speaker (make_turn Caregiver fishing_question) = Caregiver"
    by (simp add: make_turn_def)
  have x: "turn_text (make_turn Caregiver fishing_question) = fishing_question"
    by (simp add: make_turn_def)
  show ?thesis
    using p m s x memory_testing_question [OF p m s x, of "''moderate''"] by blast
qed

text \<open>
  What the detector does for choices: a too_many_choices violation, of medium severity, is
  emitted for a turn exactly when the string "or" occurs at least twice in its lowered
  text, inside words or not.
\<close>

lemma too_many_choices_iff:
  "list_ex (\<lambda>v. vtype v = ''too_many_choices'') (turn_violations i t) \<longleftrightarrow>
   2 \<le> str_count (text_lower t) ''or''"
  by (simp add: turn_violations_def)

text \<open>
  C6: the caregiver turn "Good morning, Dorothy." does not hold the word "or" at all, and
  the detector emits a medium too_many_choices violation for it, because "or" occurs in
  "morning" and in "Dorothy". The same happens to the Arrival example of the ideal
  session.
\<close>

theorem too_many_choices_without_the_word:
  "parse_conversation greeting_transcript ''Alice'' ''Dorothy'' =
     Inr [make_turn Caregiver ''Good morning, Dorothy.''] \<and>
   count_word ''or'' (lower ''Good morning, Dorothy.'') = 0 \<and>
   str_count (lower ''Good morning, Dorothy.'') ''or'' = 2 \<and>
   map (\<lambda>v. (vtype v, severity v, turn_number v))
     (detect_violations [make_turn Caregiver ''Good morning, Dorothy.''] ''moderate'') =
     [(''too_many_choices'', Medium, 1)] \<and>
   count_word ''or'' (lower (ph_example (hd IDEAL_SESSION_phases))) = 0 \<and>
   map (\<lambda>v. (vtype v, severity v, turn_number v))
     (detect_violations [make_turn Caregiver (ph_example (hd IDEAL_SESSION_phases))]
        ''moderate'') =
     [(''too_many_choices'', Medium, 1)]"
  by code_simp

section \<open>Properties of the recommendation generator\<close>

lemma principle_recommendation_kind:
  "get_principle_recommendation principle stage = Some r \<Longrightarrow>
   category r = ''structure'' \<or> category r = ''communication'' \<or> category r = ''approach''"
  by (auto simp: get_principle_recommendation_def recommendations_map_def split: if_splits)

lemma low_score_recommendations_kind:
  "r \<in> set (low_score_recommendations scores stage) \<Longrightarrow>
   category r = ''structure'' \<or> category r = ''communication'' \<or> category r = ''approach''"
proof (induction scores)
  case Nil
  then show ?case by simp
next
  case (Cons a scores)
  obtain principle score_data where a: "a = (principle, score_data)" by (cases a)
  show ?case
    using Cons principle_recommendation_kind [of principle stage]
    by (auto simp: a split: option.splits if_splits)
qed

lemma low_score_filter:
  assumes "c \<noteq> ''structure''" "c \<noteq> ''communication''" "c \<noteq> ''approach''"
  shows "filter (\<lambda>r. category r = c) (low_score_recommendations scores stage) = []"
  using assms low_score_recommendations_kind [of _ scores stage]
  by (auto simp: filter_empty_conv)

lemma fixed_categories:
  "category stop_testing_memory = ''critical''"
  "category early_stage_recommendation = ''stage_specific''"
  "category moderate_stage_recommendation = ''stage_specific''"
  "category late_stage_recommendation = ''stage_specific''"
  "category structure_your_visit = ''improvement''"
  by (simp_all add: stop_testing_memory_def early_stage_recommendation_def
      moderate_stage_recommendation_def late_stage_recommendation_def
      structure_your_visit_def)

lemma generate_recommendations_shape:
  "generate_recommendations turns scores vs stage =
     (let body =
        (if list_ex (\<lambda>v. severity v = High) vs then [stop_testing_memory] else []) @
        low_score_recommendations scores stage @
        (if stage = ''early'' then [early_stage_recommendation]
         else if stage = ''moderate'' then [moderate_stage_recommendation]
         else if stage = ''late'' then [late_stage_recommendation]
         else [])
      in if body = [] then [structure_your_visit] else body)"
proof -
  have "(vs \<noteq> [] \<and> filter (\<lambda>v. severity v = High) vs \<noteq> []) =
        list_ex (\<lambda>v. severity v = High) vs"
    by (auto simp: filter_empty_conv list_ex_iff)
  then show ?thesis
    unfolding generate_recommendations_def Let_def by simp
qed

text \<open>
  For the three stages the generator knows, the list holds exactly one stage-specific
  recommendation, in last place, and never the generic one; and for every stage the
  critical recommendation is there, once and first, exactly when some violation is of
  high severity.
\<close>

lemma stage_recommendation_for_known_stage:
  assumes "stage = ''early'' \<or> stage = ''moderate'' \<or> stage = ''late''"
  shows "length (filter (\<lambda>r. category r = ''stage_specific'')
           (generate_recommendations turns scores vs stage)) = 1 \<and>
         category (last (generate_recommendations turns scores vs stage)) = ''stage_specific'' \<and>
         filter (\<lambda>r. category r = ''improvement'')
           (generate_recommendations turns scores vs stage) = []"
proof -
  have l: "filter (\<lambda>r. category r = ''stage_specific'')
             (low_score_recommendations scores stage) = []"
    "filter (\<lambda>r. category r = ''improvement'')
             (low_score_recommendations scores stage) = []"
    by (rule low_score_filter; simp)+
  show ?thesis
    using assms l unfolding generate_recommendations_shape Let_def
    by (auto simp: fixed_categories)
qed

lemma critical_recommendation_iff:
  "filter (\<lambda>r. category r = ''critical'') (generate_recommendations turns scores vs stage) =
     (if list_ex (\<lambda>v. severity v = High) vs then [stop_testing_memory] else []) \<and>
   (list_ex (\<lambda>v. severity v = High) vs \<longrightarrow>
      hd (generate_recommendations turns scores vs stage) = stop_testing_memory)"
proof -
  have l: "filter (\<lambda>r. category r = ''critical'')
             (low_score_recommendations scores stage) = []"
    by (rule low_score_filter; simp)
  show ?thesis
    using l unfolding generate_recommendations_shape Let_def
    by (auto simp: fixed_categories)
qed

text \<open>
  C7: the persistence model's stage value "mild", which the training service passes on
  for a patient of that stage, matches none of the three stage branches: whatever the
  turns, scores and violations, the list holds no stage-specific recommendation. For a
  visit with the ideal opening and closing and stage "mild" the report's only
  recommendation is the generic "Structure Your Visit".
\<close>

theorem no_stage_recommendation_for_mild:
  "filter (\<lambda>r. category r = ''stage_specific'')
     (generate_recommendations ts scores viols ''mild'') = [] \<and>
   (\<exists>r. analyze_conversation visit_transcript ''Alice'' ''Mom'' ''mild'' = Inr r \<and>
        recommendations r = [structure_your_visit]) \<and>
   title structure_your_visit = ''Structure Your Visit'' \<and>
   category structure_your_visit = ''improvement''"
proof -
  have c: "title structure_your_visit = ''Structure Your Visit''"
    "category structure_your_visit = ''improvement''"
    by (simp_all add: structure_your_visit_def)
  have l: "filter (\<lambda>r. category r = ''stage_specific'')
             (low_score_recommendations scores ''mild'') = []"
    by (rule low_score_filter; simp)
  have a: "filter (\<lambda>r. category r = ''stage_specific'')
     (generate_recommendations ts scores viols ''mild'') = []"
    using l unfolding generate_recommendations_shape Let_def
    by (simp add: fixed_categories)
  define turns where "turns =
      [make_turn Caregiver ''Good morning, Mom. It's time for our visit.'',
       make_turn Caregiver ''Thank you for this time. I'll see you tomorrow.'']"
  have p: "parse_conversation visit_transcript ''Alice'' ''Mom'' = Inr turns"
    unfolding turns_def by code_simp
  have g: "generate_recommendations turns (scores_of turns ''mild'')
      (detect_violations turns ''mild'') ''mild'' = [structure_your_visit]"
    unfolding turns_def by code_simp
  obtain r where r: "analyze_turns turns visit_transcript ''mild'' = Inr r"
    and rr: "recommendations r = generate_recommendations turns (scores_of turns ''mild'')
      (detect_violations turns ''mild'') ''mild''"
    using analyze_turns_report [of turns visit_transcript "''mild''"] by simp
  have b: "\<exists>r. analyze_conversation visit_transcript ''Alice'' ''Mom'' ''mild'' = Inr r \<and>
        recommendations r = [structure_your_visit]"
    using analyze_conversation_parsed [OF p] r rr g by simp
  show ?thesis using a b c by (intro conjI) assumption+
qed

section \<open>Properties of the phase analysis\<close>

text \<open>
  With at least one caregiver turn the phases are reported by name: the detected ones
  are some of the five names with a detector, in the session's order, the missing ones
  are the other names of the session, "Gentle Presence" among them, and the structure is
  followed exactly from four detected phases.
\<close>

lemma detected_shape:
  "(let d1 = (if a then [''Arrival''] else []);
        d2 = (if b then d1 @ [''Gentle Orientation''] else d1);
        d3 = (if c then d2 @ [''Familiar Thread''] else d2);
        d4 = (if d then d3 @ [''Emotional Reflection''] else d3);
        detected = (if e then d4 @ [''Consistent Closing''] else d4)
    in subseq detected [''Arrival'', ''Gentle Orientation'', ''Familiar Thread'',
         ''Emotional Reflection'', ''Consistent Closing''] \<and>
       ''Gentle Presence'' \<in> set (filter (\<lambda>p. p \<notin> set detected)
         [''Arrival'', ''Gentle Orientation'', ''Familiar Thread'', ''Emotional Reflection'',
          ''Gentle Presence'', ''Consistent Closing'']))"
  unfolding Let_def
  by (cases a; cases b; cases c; cases d; cases e; simp)


lemma analyze_phases_named:
  assumes "caregiver_turns_of turns \<noteq> []"
  shows "subseq (detected_phases (analyze_phases turns))
       [''Arrival'', ''Gentle Orientation'', ''Familiar Thread'', ''Emotional Reflection'',
        ''Consistent Closing''] \<and>
     missing_phases (analyze_phases turns) =
       map Phase_name (filter (\<lambda>p. p \<notin> set (detected_phases (analyze_phases turns)))
         (map ph_name IDEAL_SESSION_phases)) \<and>
     Phase_name ''Gentle Presence'' \<in> set (missing_phases (analyze_phases turns)) \<and>
     follows_structure (analyze_phases turns) =
       (4 \<le> length (detected_phases (analyze_phases turns))) \<and>
     phase_count (analyze_phases turns) =
       Some (length (detected_phases (analyze_phases turns)))"
proof -
  obtain c cs where cts: "caregiver_turns_of turns = c # cs"
    using assms by (cases "caregiver_turns_of turns") auto
  have names: "map ph_name IDEAL_SESSION_phases =
      [''Arrival'', ''Gentle Orientation'', ''Familiar Thread'', ''Emotional Reflection'',
       ''Gentle Presence'', ''Consistent Closing'']"
    by (simp add: IDEAL_SESSION_phases_def)
  define det where "det =
    (let d1 = (if any_in [''good morning'', ''good afternoon'', ''hello'', ''time for'']
                    (text_lower c)
               then [''Arrival''] else []);
         d2 = (if list_ex (\<lambda>t. any_in [''today'', ''at home'', ''okay'', ''calm'']
                                (text_lower t)) (take 3 (c # cs))
               then d1 @ [''Gentle Orientation''] else d1);
         d3 = (if list_ex (\<lambda>t. str_in ''you'' (text_lower t) \<and>
                                any_in [''like'', ''enjoy'', ''loved'', ''always'']
                                  (text_lower t)) (c # cs)
               then d2 @ [''Familiar Thread''] else d2);
         d4 = (if list_ex (\<lambda>t. any_in [''sound'', ''seem'', ''feel'', ''care'']
                                (text_lower t)) (c # cs)
               then d3 @ [''Emotional Reflection''] else d3)
     in (if any_in [''thank you'', ''tomorrow'', ''next time'', ''see you'']
              (text_lower (last (c # cs)))
         then d4 @ [''Consistent Closing''] else d4))"
  have rep: "analyze_phases turns =
      \<lparr>follows_structure = (4 \<le> length det), detected_phases = det,
       missing_phases = map Phase_name (filter (\<lambda>p. p \<notin> set det)
         [''Arrival'', ''Gentle Orientation'', ''Familiar Thread'', ''Emotional Reflection'',
          ''Gentle Presence'', ''Consistent Closing'']),
       phase_count = Some (length det)\<rparr>"
    unfolding det_def analyze_phases_def cts list.case Let_def names by (rule refl)
  have sh: "subseq det [''Arrival'', ''Gentle Orientation'', ''Familiar Thread'',
         ''Emotional Reflection'', ''Consistent Closing''] \<and>
       ''Gentle Presence'' \<in> set (filter (\<lambda>p. p \<notin> set det)
         [''Arrival'', ''Gentle Orientation'', ''Familiar Thread'', ''Emotional Reflection'',
          ''Gentle Presence'', ''Consistent Closing''])"
    unfolding det_def Let_def by (rule detected_shape [unfolded Let_def])
  have gp: "Phase_name ''Gentle Presence'' \<in> set (map Phase_name (filter (\<lambda>p. p \<notin> set det)
         [''Arrival'', ''Gentle Orientation'', ''Familiar Thread'', ''Emotional Reflection'',
          ''Gentle Presence'', ''Consistent Closing'']))"
    using sh by (simp only: set_map) (rule imageI, blast)
  show ?thesis
    unfolding rep names phase_analysis.select_convs
    using sh gp by (intro conjI refl) blast+
qed

text \<open>
  C8: for the empty transcript, and for any turns without a caregiver turn, the missing
  phases are the six phase dictionaries of the ideal session, not their names; the name
  "Gentle Presence" is not an element of the list, and the phase count is absent.
\<close>

theorem missing_phases_without_caregiver:
  "(\<exists>r. analyze_conversation '''' ''Alice'' ''Mom'' ''moderate'' = Inr r \<and>
        detected_phases (phase_analysis r) = [] \<and>
        follows_structure (phase_analysis r) = False \<and>
        missing_phases (phase_analysis r) = map Phase_dict IDEAL_SESSION_phases \<and>
        phase_count (phase_analysis r) = None \<and>
        Phase_name ''Gentle Presence'' \<notin> set (missing_phases (phase_analysis r)) \<and>
        missing_phases (phase_analysis r) \<noteq>
          map Phase_name (map ph_name IDEAL_SESSION_phases)) \<and>
   missing_phases (analyze_phases [make_turn Patient ''Where is my hat?'']) =
     map Phase_dict IDEAL_SESSION_phases"
proof -
  have p: "parse_conversation '''' ''Alice'' ''Mom'' = Inr []" by code_simp
  obtain r where r: "analyze_turns [] '''' ''moderate'' = Inr r"
    and pr: "phase_analysis r = analyze_phases []"
    using analyze_turns_report [of "[]" "''''" "''moderate''"] by simp
  have a: "analyze_conversation '''' ''Alice'' ''Mom'' ''moderate'' = Inr r"
    using analyze_conversation_parsed [OF p] r by simp
  have e: "analyze_phases [] =
      \<lparr>follows_structure = False, detected_phases = [],
       missing_phases = map Phase_dict IDEAL_SESSION_phases, phase_count = None\<rparr>"
    by (simp add: analyze_phases_def caregiver_turns_of_def)
  have b: "detected_phases (phase_analysis r) = []"
    "follows_structure (phase_analysis r) = False"
    "missing_phases (phase_analysis r) = map Phase_dict IDEAL_SESSION_phases"
    "phase_count (phase_analysis r) = None"
    by (simp_all add: pr e)
  have c: "Phase_name ''Gentle Presence'' \<notin> set (missing_phases (phase_analysis r))"
    unfolding b(3) by auto
  have d: "missing_phases (phase_analysis r) \<noteq>
          map Phase_name (map ph_name IDEAL_SESSION_phases)"
    unfolding b(3) by (simp add: IDEAL_SESSION_phases_def)
  have f: "missing_phases (analyze_phases [make_turn Patient ''Where is my hat?'']) =
     map Phase_dict IDEAL_SESSION_phases"
    by (simp add: analyze_phases_def caregiver_turns_of_def make_turn_def)
  have "\<exists>r. analyze_conversation '''' ''Alice'' ''Mom'' ''moderate'' = Inr r \<and>
        detected_phases (phase_analysis r) = [] \<and>
        follows_structure (phase_analysis r) = False \<and>
        missing_phases (phase_analysis r) = map Phase_dict IDEAL_SESSION_phases \<and>
        phase_count (phase_analysis r) = None \<and>
        Phase_name ''Gentle Presence'' \<notin> set (missing_phases (phase_analysis r)) \<and>
        missing_phases (phase_analysis r) \<noteq>
          map Phase_name (map ph_name IDEAL_SESSION_phases)"
    apply (rule exI [of _ r])
    using a b c d by (intro conjI) assumption+
  then show ?thesis using f by (intro conjI) assumption+
qed

end
